theory Spec2Isabelle
  imports Complex_Main
begin

section \<open>Numbers, errors and undefined results\<close>

text \<open>
  The program computes with Python floats. They are modelled as exact reals: the
  rounding of binary floating point is not part of the model. The not-a-number value
  that the program uses as its "undefined" result (\<^verbatim>\<open>np.nan\<close>) is the value
  \<open>None\<close> of a \<open>cell\<close>; every comparison with it is false, as in Python.
\<close>

type_synonym cell = "real option"

datatype error = ValueError string | ZeroDivisionError | LibraryError string

definition nan :: cell where
  "nan = None"

definition isnan :: "cell \<Rightarrow> bool" where
  "isnan c = (c = None)"

fun cell_gt :: "cell \<Rightarrow> cell \<Rightarrow> bool" where
  "cell_gt (Some x) (Some y) = (x > y)"
| "cell_gt _ _ = False"

fun cell_lt :: "cell \<Rightarrow> cell \<Rightarrow> bool" where
  "cell_lt (Some x) (Some y) = (x < y)"
| "cell_lt _ _ = False"

fun cell_eq :: "cell \<Rightarrow> cell \<Rightarrow> bool" where
  "cell_eq (Some x) (Some y) = (x = y)"
| "cell_eq _ _ = False"

section \<open>risk\_manager.py: class RiskManager\<close>

record risk_manager =
  account_balance :: real
  initial_balance :: real
  risk_per_trade_percentage :: real
  daily_risk_limit_percentage :: real
  daily_loss_incurred :: real

text \<open>\<^verbatim>\<open>RiskManager.__init__\<close>: the three checks, in the source's order, then the fields.\<close>

definition RiskManager_init :: "real \<Rightarrow> real \<Rightarrow> real \<Rightarrow> error + risk_manager" where
  "RiskManager_init balance risk_pct daily_pct =
     (if \<not> (0 < risk_pct \<and> risk_pct \<le> 1) then
        Inl (ValueError ''risk_per_trade_percentage must be between 0 and 1 (inclusive).'')
      else if \<not> (0 < daily_pct \<and> daily_pct \<le> 1) then
        Inl (ValueError ''daily_risk_limit_percentage must be between 0 and 1 (inclusive).'')
      else if balance \<le> 0 then
        Inl (ValueError ''account_balance must be positive.'')
      else
        Inr \<lparr> account_balance = balance,
              initial_balance = balance,
              risk_per_trade_percentage = risk_pct,
              daily_risk_limit_percentage = daily_pct,
              daily_loss_incurred = 0 \<rparr>)"

text \<open>
  \<^verbatim>\<open>calculate_position_size\<close>. Python's float division raises ZeroDivisionError on a
  zero divisor, which \<open>asset_multiplier = 0\<close> produces; the model returns it as an error.
\<close>

definition calculate_position_size ::
  "risk_manager \<Rightarrow> real \<Rightarrow> real \<Rightarrow> real \<Rightarrow> error + real" where
  "calculate_position_size rm entry_price stop_loss_price asset_multiplier =
     (if stop_loss_price \<le> 0 \<or> entry_price \<le> 0 then Inr 0
      else
        let risk_per_trade_dollars = account_balance rm * risk_per_trade_percentage rm;
            price_difference = \<bar>entry_price - stop_loss_price\<bar>
        in if price_difference = 0 then Inr 0
           else if price_difference * asset_multiplier = 0 then Inl ZeroDivisionError
           else Inr (risk_per_trade_dollars / (price_difference * asset_multiplier)))"

text \<open>
  \<^verbatim>\<open>determine_stop_loss\<close>: the two optional arguments are options; \<open>None\<close> is
  Python's \<^verbatim>\<open>None\<close>. The result is a cell: \<open>nan\<close> where the source returns
  \<^verbatim>\<open>np.nan\<close>.
\<close>

definition determine_stop_loss :: "real \<Rightarrow> real option \<Rightarrow> real option \<Rightarrow> cell" where
  "determine_stop_loss entry_price stop_loss_distance_percentage volatility =
     (if entry_price \<le> 0 then nan
      else case stop_loss_distance_percentage of
        Some pct \<Rightarrow>
          if \<not> (0 < pct \<and> pct < 1) then nan
          else Some (entry_price * (1 - pct))
      | None \<Rightarrow>
          (case volatility of
             Some v \<Rightarrow>
               let stop_loss_price = entry_price - v * 1.5
               in if stop_loss_price \<le> 0 then Some (entry_price * 0.95)
                  else Some stop_loss_price
           | None \<Rightarrow> nan))"

text \<open>\<^verbatim>\<open>determine_take_profit\<close>, branch by branch; the floor of the short case tests \<open>< 0\<close>.\<close>

definition determine_take_profit :: "real \<Rightarrow> real \<Rightarrow> real \<Rightarrow> cell" where
  "determine_take_profit entry_price stop_loss_price risk_reward_ratio =
     (if entry_price \<le> 0 \<or> stop_loss_price \<le> 0 \<or> risk_reward_ratio \<le> 0 then nan
      else
        let price_difference = \<bar>entry_price - stop_loss_price\<bar>;
            take_profit_distance = price_difference * risk_reward_ratio
        in if entry_price > stop_loss_price then
             Some (entry_price + take_profit_distance)
           else if entry_price < stop_loss_price then
             (let take_profit_price = entry_price - take_profit_distance
              in if take_profit_price < 0 then Some (entry_price * 0.05)
                 else Some take_profit_price)
           else nan)"

text \<open>\<^verbatim>\<open>update_trailing_stop\<close>, with the source's two early returns and its fall-through.\<close>

definition update_trailing_stop :: "real \<Rightarrow> real \<Rightarrow> bool \<Rightarrow> real" where
  "update_trailing_stop current_price trailing_stop_level long_position =
     (if long_position then
        (let new_trailing_stop = max trailing_stop_level (current_price * 0.98)
         in if new_trailing_stop > trailing_stop_level then new_trailing_stop
            else trailing_stop_level)
      else
        (let new_trailing_stop = min trailing_stop_level (current_price * 1.02)
         in if new_trailing_stop < trailing_stop_level then new_trailing_stop
            else trailing_stop_level))"

text \<open>
  The stop levels a caller sees when it feeds a sequence of prices to
  \<^verbatim>\<open>update_trailing_stop\<close>, each call starting from the level the previous one returned.
\<close>

fun trailing_stops :: "real list \<Rightarrow> real \<Rightarrow> bool \<Rightarrow> real list" where
  "trailing_stops [] level long_position = []"
| "trailing_stops (p # ps) level long_position =
     (let level' = update_trailing_stop p level long_position
      in level' # trailing_stops ps level' long_position)"

definition check_daily_risk_limit :: "risk_manager \<Rightarrow> bool" where
  "check_daily_risk_limit rm =
     (let daily_risk_limit_dollars = initial_balance rm * daily_risk_limit_percentage rm
      in if daily_loss_incurred rm \<ge> daily_risk_limit_dollars then False else True)"

text \<open>
  \<^verbatim>\<open>update_daily_loss\<close> mutates the object; the model returns the new state. The
  branch for a negative amount only logs, and an amount of zero matches no branch.
\<close>

definition update_daily_loss :: "risk_manager \<Rightarrow> real \<Rightarrow> risk_manager" where
  "update_daily_loss rm loss_amount =
     (if loss_amount > 0 then
        rm \<lparr> daily_loss_incurred := daily_loss_incurred rm + loss_amount,
             account_balance := account_balance rm - loss_amount \<rparr>
      else if loss_amount < 0 then rm
      else rm)"

definition reset_daily_loss :: "risk_manager \<Rightarrow> risk_manager" where
  "reset_daily_loss rm =
     rm \<lparr> daily_loss_incurred := 0, initial_balance := account_balance rm \<rparr>"

text \<open>
  The calls that change a RiskManager, and a run of them. The other methods of the class
  read the state and leave it as it is.
\<close>

datatype rm_call = UpdateDailyLoss real | ResetDailyLoss

fun rm_step :: "risk_manager \<Rightarrow> rm_call \<Rightarrow> risk_manager" where
  "rm_step rm (UpdateDailyLoss amount) = update_daily_loss rm amount"
| "rm_step rm ResetDailyLoss = reset_daily_loss rm"

definition rm_run :: "risk_manager \<Rightarrow> rm_call list \<Rightarrow> risk_manager" where
  "rm_run rm calls = foldl rm_step rm calls"

text \<open>A state is reachable when a successful construction and a run of calls produce it.\<close>

inductive reachable :: "risk_manager \<Rightarrow> bool" where
  reach_init: "RiskManager_init balance risk_pct daily_pct = Inr rm \<Longrightarrow> reachable rm"
| reach_step: "reachable rm \<Longrightarrow> reachable (rm_step rm call)"

section \<open>Data frames and the indicator library\<close>

text \<open>
  A pandas DataFrame is its list of column names and its list of rows; a row gives the
  cell of every column name, and only the names in \<open>columns\<close> are columns of the
  frame. The row index (the bar's timestamp) plays no part in the code modelled here.
\<close>

record dataframe =
  columns :: "string list"
  rows :: "(string \<Rightarrow> cell) list"

text \<open>\<^verbatim>\<open>data.empty\<close>: true when an axis of the frame has length zero.\<close>

definition df_empty :: "dataframe \<Rightarrow> bool" where
  "df_empty data = (columns data = [] \<or> rows data = [])"

text \<open>\<^verbatim>\<open>data[name]\<close> read as a series of cells.\<close>

definition get_column :: "dataframe \<Rightarrow> string \<Rightarrow> cell list" where
  "get_column data name = map (\<lambda>r. r name) (rows data)"

text \<open>
  A series laid on a row index of \<open>n\<close> positions: a position the series has no value
  for holds not-a-number, as pandas' index alignment does.
\<close>

definition reindex :: "nat \<Rightarrow> cell list \<Rightarrow> cell list" where
  "reindex n series = map (\<lambda>i. if i < length series then series ! i else nan) [0..<n]"

text \<open>\<^verbatim>\<open>data[name] = series\<close>: the column is added (or replaced), row by row.\<close>

definition set_column :: "dataframe \<Rightarrow> string \<Rightarrow> cell list \<Rightarrow> dataframe" where
  "set_column data name series =
     \<lparr> columns = (if name \<in> set (columns data) then columns data else columns data @ [name]),
       rows = map (\<lambda>(r, v). r(name := v))
                (zip (rows data) (reindex (length (rows data)) series)) \<rparr>"

text \<open>\<^verbatim>\<open>s.iloc[-1] if not s.empty else np.nan\<close>.\<close>

definition latest :: "cell list \<Rightarrow> cell" where
  "latest s = (if s \<noteq> [] then last s else nan)"

text \<open>
  \<^verbatim>\<open>dropna(inplace=True)\<close>: a row stays when none of its cells, in any column of the
  frame, is not-a-number.
\<close>

definition dropna :: "dataframe \<Rightarrow> dataframe" where
  "dropna data =
     data \<lparr> rows := filter (\<lambda>r. list_all (\<lambda>name. \<not> isnan (r name)) (columns data)) (rows data) \<rparr>"

text \<open>\<^verbatim>\<open>row.get(name, default)\<close> on a row of the frame.\<close>

definition row_get :: "dataframe \<Rightarrow> (string \<Rightarrow> cell) \<Rightarrow> string \<Rightarrow> real \<Rightarrow> cell" where
  "row_get data r name dflt = (if name \<in> set (columns data) then r name else Some dflt)"

text \<open>
  The indicator functions come from the libraries \<^verbatim>\<open>ta\<close> and \<^verbatim>\<open>pandas\<close>, which are
  not part of this repository: they are parameters of the model. The two that
  \<^verbatim>\<open>analyze_market_conditions\<close> calls inside its \<^verbatim>\<open>try\<close> may raise, so they return
  an error or a series; the moving average and the rolling extrema return a series.
\<close>

record library =
  average_true_range :: "cell list \<Rightarrow> cell list \<Rightarrow> cell list \<Rightarrow> nat \<Rightarrow> error + cell list"
  adx :: "cell list \<Rightarrow> cell list \<Rightarrow> cell list \<Rightarrow> nat \<Rightarrow> error + cell list"
  sma_indicator :: "cell list \<Rightarrow> nat \<Rightarrow> cell list"
  rolling_max :: "cell list \<Rightarrow> nat \<Rightarrow> cell list"
  rolling_min :: "cell list \<Rightarrow> nat \<Rightarrow> cell list"

section \<open>adaptability\_manager.py: class AdaptabilityManager\<close>

record adaptability_manager =
  volatility_threshold :: real
  trend_strength_threshold :: real

definition AdaptabilityManager_init :: "real \<Rightarrow> real \<Rightarrow> adaptability_manager" where
  "AdaptabilityManager_init vol_thr trend_thr =
     \<lparr> volatility_threshold = vol_thr, trend_strength_threshold = trend_thr \<rparr>"

definition AdaptabilityManager_default :: adaptability_manager where
  "AdaptabilityManager_default = AdaptabilityManager_init 0.02 20"

text \<open>
  The \<^verbatim>\<open>if\<close>/\<^verbatim>\<open>elif\<close> chain of \<^verbatim>\<open>analyze_market_conditions\<close> that reads
  \<^verbatim>\<open>trend\<close> and \<^verbatim>\<open>volatility\<close> from the dictionary and gives the regime tag.
\<close>

definition regime_of :: "(string \<rightharpoonup> string) \<Rightarrow> string" where
  "regime_of mc =
     (if mc ''trend'' = Some ''trending'' \<and> mc ''volatility'' = Some ''high'' then ''TRENDING_HIGH_VOL''
      else if mc ''trend'' = Some ''trending'' \<and> mc ''volatility'' = Some ''low'' then ''TRENDING_LOW_VOL''
      else if mc ''trend'' = Some ''ranging'' \<and> mc ''volatility'' = Some ''high'' then ''RANGING_HIGH_VOL''
      else if mc ''trend'' = Some ''ranging'' \<and> mc ''volatility'' = Some ''low'' then ''RANGING_LOW_VOL''
      else ''UNCERTAIN'')"

text \<open>
  The body of the \<^verbatim>\<open>try\<close> block. An exception raised by an indicator call leaves
  the block at once: the result is \<open>Inl\<close> of it.
\<close>

definition analyze_try_block ::
  "adaptability_manager \<Rightarrow> library \<Rightarrow> dataframe \<Rightarrow> error + (string \<rightharpoonup> string)" where
  "analyze_try_block am lib data =
     (case average_true_range lib (get_column data ''high'') (get_column data ''low'')
             (get_column data ''close'') 14 of
        Inl e \<Rightarrow> Inl e
      | Inr atr_series \<Rightarrow>
          let data1 = set_column data ''ATR'' atr_series;
              latest_atr = latest (get_column data1 ''ATR'');
              latest_close = latest (get_column data1 ''close'');
              mc1 = Map.empty(''volatility'' \<mapsto>
                     (case (latest_atr, latest_close) of
                        (Some a, Some c) \<Rightarrow>
                          if c \<noteq> 0 then
                            (if a / c > volatility_threshold am then ''high'' else ''low'')
                          else ''unknown''
                      | _ \<Rightarrow> ''unknown''))
          in case adx lib (get_column data1 ''high'') (get_column data1 ''low'')
                    (get_column data1 ''close'') 14 of
               Inl e \<Rightarrow> Inl e
             | Inr adx_series \<Rightarrow>
                 let data2 = set_column data1 ''ADX'' adx_series;
                     latest_adx = latest (get_column data2 ''ADX'');
                     mc2 = mc1(''trend'' \<mapsto>
                            (case latest_adx of
                               Some x \<Rightarrow>
                                 if x > trend_strength_threshold am then ''trending''
                                 else ''ranging''
                             | None \<Rightarrow> ''unknown''))
                 in Inr (mc2(''regime'' \<mapsto> regime_of mc2)))"

text \<open>
  \<^verbatim>\<open>analyze_market_conditions\<close>: the two early returns, then the \<^verbatim>\<open>try\<close> block
  with its handler. The result type keeps a place for an exception that reaches the
  caller.
\<close>

definition analyze_market_conditions ::
  "adaptability_manager \<Rightarrow> library \<Rightarrow> dataframe \<Rightarrow> error + (string \<rightharpoonup> string)" where
  "analyze_market_conditions am lib data =
     (if df_empty data then Inr [''regime'' \<mapsto> ''UNKNOWN'']
      else if \<not> list_all (\<lambda>col. col \<in> set (columns data)) [''high'', ''low'', ''close''] then
        Inr [''regime'' \<mapsto> ''UNKNOWN'']
      else case analyze_try_block am lib data of
             Inl e \<Rightarrow> Inr [''regime'' \<mapsto> ''UNKNOWN'', ''volatility'' \<mapsto> ''unknown'',
                              ''trend'' \<mapsto> ''unknown'']
           | Inr market_conditions \<Rightarrow> Inr market_conditions)"

text \<open>
  The dictionary \<^verbatim>\<open>suggested_adjustments\<close>: every branch of
  \<^verbatim>\<open>suggest_strategy_adjustment\<close> sets the same four keys, so it is a record, and the
  test \<^verbatim>\<open>'stop_loss_multiplier' in suggested_adjustments\<close> is always true.
\<close>

record adjustment =
  strategy_type :: string
  risk_per_trade_multiplier :: real
  stop_loss_multiplier :: real
  take_profit_multiplier :: real

definition suggest_strategy_adjustment :: "(string \<rightharpoonup> string) \<Rightarrow> adjustment" where
  "suggest_strategy_adjustment market_conditions =
     (let current_regime = (case market_conditions ''regime'' of Some v \<Rightarrow> v | None \<Rightarrow> ''UNKNOWN'');
          volatility_level = (case market_conditions ''volatility'' of Some v \<Rightarrow> v | None \<Rightarrow> ''unknown'');
          suggested =
            (if current_regime = ''TRENDING_HIGH_VOL'' then
               \<lparr> strategy_type = ''trend_following'', risk_per_trade_multiplier = 0.8,
                 stop_loss_multiplier = 1.5, take_profit_multiplier = 2.0 \<rparr>
             else if current_regime = ''TRENDING_LOW_VOL'' then
               \<lparr> strategy_type = ''trend_following'', risk_per_trade_multiplier = 1.0,
                 stop_loss_multiplier = 1.0, take_profit_multiplier = 1.5 \<rparr>
             else if current_regime = ''RANGING_HIGH_VOL'' then
               \<lparr> strategy_type = ''range_bound'', risk_per_trade_multiplier = 0.6,
                 stop_loss_multiplier = 1.8, take_profit_multiplier = 1.2 \<rparr>
             else if current_regime = ''RANGING_LOW_VOL'' then
               \<lparr> strategy_type = ''range_bound'', risk_per_trade_multiplier = 1.0,
                 stop_loss_multiplier = 1.0, take_profit_multiplier = 1.0 \<rparr>
             else
               \<lparr> strategy_type = ''hold'', risk_per_trade_multiplier = 0.5,
                 stop_loss_multiplier = 1.0, take_profit_multiplier = 1.0 \<rparr>)
      in if volatility_level = ''high'' then
           suggested \<lparr> stop_loss_multiplier := stop_loss_multiplier suggested * 1.2 \<rparr>
         else if volatility_level = ''low'' then
           suggested \<lparr> stop_loss_multiplier := stop_loss_multiplier suggested * 0.8 \<rparr>
         else suggested)"

section \<open>trading\_strategy.py: class CombinedStrategy\<close>

datatype signal = BUY | SELL | HOLD

record combined_strategy =
  pvg_short_period :: nat
  pvg_long_period :: nat
  smc_lookback :: nat
  tpr_volume_period :: nat

definition CombinedStrategy_init :: combined_strategy where
  "CombinedStrategy_init =
     \<lparr> pvg_short_period = 14, pvg_long_period = 50, smc_lookback = 20, tpr_volume_period = 20 \<rparr>"

definition analyze_pvg :: "combined_strategy \<Rightarrow> library \<Rightarrow> dataframe \<Rightarrow> dataframe" where
  "analyze_pvg st lib data =
     (if ''close'' \<in> set (columns data) then
        (let data1 = set_column data ''PVG_SMA_Short''
                       (sma_indicator lib (get_column data ''close'') (pvg_short_period st))
         in set_column data1 ''PVG_SMA_Long''
              (sma_indicator lib (get_column data1 ''close'') (pvg_long_period st)))
      else data)"

text \<open>
  \<^verbatim>\<open>(rolled == series).astype(int)\<close>: 1 where the two cells are equal numbers, else 0;
  a not-a-number cell equals nothing.
\<close>

definition eq_as_int :: "cell list \<Rightarrow> cell list \<Rightarrow> cell list" where
  "eq_as_int rolled series =
     map (\<lambda>(a, b). Some (if cell_eq a b then 1 else 0)) (zip rolled series)"

definition analyze_smc :: "combined_strategy \<Rightarrow> library \<Rightarrow> dataframe \<Rightarrow> dataframe" where
  "analyze_smc st lib data =
     (if ''high'' \<in> set (columns data) \<and> ''low'' \<in> set (columns data) then
        (let data1 = set_column data ''SMC_Swing_High''
                       (eq_as_int (rolling_max lib (get_column data ''high'') (smc_lookback st))
                                  (get_column data ''high''))
         in set_column data1 ''SMC_Swing_Low''
              (eq_as_int (rolling_min lib (get_column data1 ''low'') (smc_lookback st))
                         (get_column data1 ''low'')))
      else data)"

definition analyze_tpr :: "combined_strategy \<Rightarrow> library \<Rightarrow> dataframe \<Rightarrow> dataframe" where
  "analyze_tpr st lib data =
     (if ''volume'' \<in> set (columns data) then
        set_column data ''TPR_Volume_SMA''
          (sma_indicator lib (get_column data ''volume'') (tpr_volume_period st))
      else set_column data ''TPR_Volume_SMA'' (replicate (length (rows data)) nan))"

text \<open>
  The frame \<^verbatim>\<open>processed_data\<close> of \<^verbatim>\<open>generate_signal\<close>: after the three
  analyses, and after \<^verbatim>\<open>dropna\<close>.
\<close>

definition analyzed_data :: "combined_strategy \<Rightarrow> library \<Rightarrow> dataframe \<Rightarrow> dataframe" where
  "analyzed_data st lib data = analyze_tpr st lib (analyze_smc st lib (analyze_pvg st lib data))"

definition processed_data :: "combined_strategy \<Rightarrow> library \<Rightarrow> dataframe \<Rightarrow> dataframe" where
  "processed_data st lib data = dropna (analyzed_data st lib data)"

definition generate_signal :: "combined_strategy \<Rightarrow> library \<Rightarrow> dataframe \<Rightarrow> signal" where
  "generate_signal st lib data =
     (if df_empty data then HOLD
      else
        let processed = processed_data st lib data
        in if df_empty processed then HOLD
           else
             let latest_data = last (rows processed);
                 get = row_get processed latest_data;
                 buy_condition_pvg = cell_gt (get ''PVG_SMA_Short'' (-1)) (get ''PVG_SMA_Long'' (-1));
                 buy_condition_smc = cell_eq (get ''SMC_Swing_Low'' 0) (Some 1);
                 buy_condition_tpr = (cell_gt (get ''close'' 0) (get ''PVG_SMA_Long'' 0)
                                      \<and> cell_gt (get ''TPR_Volume_SMA'' 0) (Some 0))
             in if buy_condition_pvg \<and> buy_condition_smc \<and> buy_condition_tpr then BUY
                else
                  let sell_condition_pvg = cell_lt (get ''PVG_SMA_Short'' 1) (get ''PVG_SMA_Long'' 1);
                      sell_condition_smc = cell_eq (get ''SMC_Swing_High'' 0) (Some 1);
                      sell_condition_tpr = (cell_lt (get ''close'' 0) (get ''PVG_SMA_Long'' 0)
                                            \<and> cell_gt (get ''TPR_Volume_SMA'' 0) (Some 0))
                  in if sell_condition_pvg \<and> sell_condition_smc \<and> sell_condition_tpr then SELL
                     else HOLD)"

text \<open>
  The decision rule in the specification's words, on the six values of the latest
  retained bar; \<^verbatim>\<open>generate_signal\<close> is compared with it below.
\<close>

definition spec_signal :: "real \<Rightarrow> real \<Rightarrow> bool \<Rightarrow> bool \<Rightarrow> real \<Rightarrow> real \<Rightarrow> signal" where
  "spec_signal short_sma long_sma swing_low swing_high close volume_sma =
     (if short_sma > long_sma \<and> swing_low \<and> close > long_sma \<and> volume_sma > 0 then BUY
      else if short_sma < long_sma \<and> swing_high \<and> close < long_sma \<and> volume_sma > 0 then SELL
      else HOLD)"

text \<open>
  The claim's wording of the bar that decides: the rows of the analysed frame on which
  each of the five indicator values is defined are kept, and the rule is read on the
  latest of them. \<^verbatim>\<open>generate_signal\<close> is compared with this, too.
\<close>

definition indicator_columns :: "string list" where
  "indicator_columns =
     [''PVG_SMA_Short'', ''PVG_SMA_Long'', ''SMC_Swing_High'', ''SMC_Swing_Low'', ''TPR_Volume_SMA'']"

definition claimed_rows :: "combined_strategy \<Rightarrow> library \<Rightarrow> dataframe \<Rightarrow> (string \<Rightarrow> cell) list" where
  "claimed_rows st lib data =
     filter (\<lambda>r. list_all (\<lambda>name. \<not> isnan (r name)) indicator_columns)
       (rows (analyzed_data st lib data))"

definition claimed_signal :: "combined_strategy \<Rightarrow> library \<Rightarrow> dataframe \<Rightarrow> signal" where
  "claimed_signal st lib data =
     (if df_empty data \<or> claimed_rows st lib data = [] then HOLD
      else
        let r = last (claimed_rows st lib data)
        in if cell_gt (r ''PVG_SMA_Short'') (r ''PVG_SMA_Long'') \<and> cell_eq (r ''SMC_Swing_Low'') (Some 1)
              \<and> cell_gt (r ''close'') (r ''PVG_SMA_Long'') \<and> cell_gt (r ''TPR_Volume_SMA'') (Some 0)
           then BUY
           else if cell_lt (r ''PVG_SMA_Short'') (r ''PVG_SMA_Long'')
              \<and> cell_eq (r ''SMC_Swing_High'') (Some 1)
              \<and> cell_lt (r ''close'') (r ''PVG_SMA_Long'') \<and> cell_gt (r ''TPR_Volume_SMA'') (Some 0)
           then SELL
           else HOLD)"

section \<open>Example data\<close>

text \<open>
  An instance of the library for evaluating the model on concrete bars. The rolling
  window of pandas has a value at a position only when the window is full and holds no
  not-a-number; \<^verbatim>\<open>ta.trend.sma_indicator\<close> is its mean. The average true range and
  the ADX are stand-ins: each raises the given error, or has the given value at every
  position.
\<close>

definition rolling :: "(real list \<Rightarrow> real) \<Rightarrow> cell list \<Rightarrow> nat \<Rightarrow> cell list" where
  "rolling f series window =
     map (\<lambda>i. if window = 0 \<or> i + 1 < window then nan
              else (let win = take window (drop (i + 1 - window) series)
                    in if list_all (\<lambda>c. \<not> isnan c) win then Some (f (map the win)) else nan))
         [0..<length series]"

definition example_library :: "error + real \<Rightarrow> error + real \<Rightarrow> library" where
  "example_library atr_value adx_value =
     \<lparr> average_true_range = (\<lambda>high low close window.
          case atr_value of Inl e \<Rightarrow> Inl e | Inr a \<Rightarrow> Inr (map (\<lambda>_. Some a) close)),
       adx = (\<lambda>high low close window.
          case adx_value of Inl e \<Rightarrow> Inl e | Inr a \<Rightarrow> Inr (map (\<lambda>_. Some a) close)),
       sma_indicator = rolling (\<lambda>xs. sum_list xs / real (length xs)),
       rolling_max = rolling (\<lambda>xs. fold max xs (hd xs)),
       rolling_min = rolling (\<lambda>xs. fold min xs (hd xs)) \<rparr>"

text \<open>One bar with high 101, low 99 and close 100.\<close>

definition one_bar :: dataframe where
  "one_bar = \<lparr> columns = [''high'', ''low'', ''close''],
               rows = [(\<lambda>_. nan)(''high'' := Some 101, ''low'' := Some 99, ''close'' := Some 100)] \<rparr>"

text \<open>
  Fifty-two bars whose prices rise by 1 per bar. The bar before the last dips to a low
  of 50; the last bar has no opening price.
\<close>

definition rising_bars :: dataframe where
  "rising_bars =
     \<lparr> columns = [''open'', ''high'', ''low'', ''close'', ''volume''],
       rows = map (\<lambda>i. (\<lambda>_. nan)
                 (''open'' := (if i = 51 then nan else Some (100 + real i)),
                  ''high'' := Some (102 + real i),
                  ''low'' := Some (if i = 50 then 50 else 99 + real i),
                  ''close'' := Some (101 + real i), ''volume'' := Some 1000))
              [0..<52] \<rparr>"

section \<open>Properties of the RiskManager\<close>

subsection \<open>Position sizing\<close>

text \<open>
  Claim C1. With \<open>asset_multiplier = 1\<close>, \<^verbatim>\<open>calculate_position_size\<close> returns 0 when
  a price is not positive or the entry price equals the stop-loss price, and otherwise
  exactly the risked amount \<open>account_balance \<times> risk_per_trade_percentage\<close> divided by
  the distance between entry and stop. It never raises there.
\<close>

theorem calculate_position_size_formula:
  "calculate_position_size rm entry stop 1 =
     (if entry \<le> 0 \<or> stop \<le> 0 \<or> entry = stop then Inr 0
      else Inr (account_balance rm * risk_per_trade_percentage rm / \<bar>entry - stop\<bar>))"
  by (simp add: calculate_position_size_def Let_def)

text \<open>The scenario of the specification: balance 10000, 1 percent risk, entry 100, stop 99.\<close>

theorem calculate_position_size_formula_witness:
  "calculate_position_size \<lparr> account_balance = 10000, initial_balance = 10000,
       risk_per_trade_percentage = 0.01, daily_risk_limit_percentage = 0.05,
       daily_loss_incurred = 0 \<rparr> 100 99 1 = Inr 100
   \<and> calculate_position_size \<lparr> account_balance = 10000, initial_balance = 10000,
       risk_per_trade_percentage = 0.01, daily_risk_limit_percentage = 0.05,
       daily_loss_incurred = 0 \<rparr> 100 100 1 = Inr 0
   \<and> calculate_position_size \<lparr> account_balance = 10000, initial_balance = 10000,
       risk_per_trade_percentage = 0.01, daily_risk_limit_percentage = 0.05,
       daily_loss_incurred = 0 \<rparr> 100 0 1 = Inr 0"
  using calculate_position_size_formula [of "\<lparr> account_balance = 10000, initial_balance = 10000,
       risk_per_trade_percentage = 0.01, daily_risk_limit_percentage = 0.05,
       daily_loss_incurred = 0 \<rparr>" 100 99]
    calculate_position_size_formula [of "\<lparr> account_balance = 10000, initial_balance = 10000,
       risk_per_trade_percentage = 0.01, daily_risk_limit_percentage = 0.05,
       daily_loss_incurred = 0 \<rparr>" 100 100]
    calculate_position_size_formula [of "\<lparr> account_balance = 10000, initial_balance = 10000,
       risk_per_trade_percentage = 0.01, daily_risk_limit_percentage = 0.05,
       daily_loss_incurred = 0 \<rparr>" 100 0]
  by simp

subsection \<open>The daily limit\<close>

text \<open>
  Claim C2. In every state of a RiskManager (so in every reachable one),
  \<^verbatim>\<open>check_daily_risk_limit\<close> is true exactly when the loss of the day is strictly
  below \<open>initial_balance \<times> daily_risk_limit_percentage\<close>; with the loss equal to that
  limit it is false.
\<close>

theorem check_daily_risk_limit_strict:
  "check_daily_risk_limit rm =
     (daily_loss_incurred rm < initial_balance rm * daily_risk_limit_percentage rm)
   \<and> check_daily_risk_limit
       (rm \<lparr> daily_loss_incurred := initial_balance rm * daily_risk_limit_percentage rm \<rparr>) = False"
  by (auto simp add: check_daily_risk_limit_def Let_def)

subsection \<open>The trailing stop\<close>

lemma update_trailing_stop_long: "update_trailing_stop p s True = max s (p * 0.98)"
  by (simp add: update_trailing_stop_def Let_def max_def)

lemma update_trailing_stop_short: "update_trailing_stop p s False = min s (p * 1.02)"
  by (simp add: update_trailing_stop_def Let_def min_def)

lemma trailing_stops_long_sorted: "sorted (s # trailing_stops ps s True)"
proof (induction ps arbitrary: s)
  case Nil
  show ?case by simp
next
  case (Cons p ps)
  let ?s' = "update_trailing_stop p s True"
  have le: "s \<le> ?s'" by (simp add: update_trailing_stop_long)
  have tail: "sorted (?s' # trailing_stops ps ?s' True)" by (rule Cons.IH)
  then have "\<forall>x \<in> set (trailing_stops ps ?s' True). ?s' \<le> x" by simp
  with le have "\<forall>x \<in> set (?s' # trailing_stops ps ?s' True). s \<le> x" by auto
  with tail show ?case by (simp add: Let_def)
qed

lemma trailing_stops_short_sorted: "sorted_wrt (\<lambda>x y. x \<ge> y) (s # trailing_stops ps s False)"
proof (induction ps arbitrary: s)
  case Nil
  show ?case by simp
next
  case (Cons p ps)
  let ?s' = "update_trailing_stop p s False"
  have le: "?s' \<le> s" by (simp add: update_trailing_stop_short)
  have tail: "sorted_wrt (\<lambda>x y. x \<ge> y) (?s' # trailing_stops ps ?s' False)" by (rule Cons.IH)
  then have "\<forall>x \<in> set (trailing_stops ps ?s' False). x \<le> ?s'" by simp
  with le have "\<forall>x \<in> set (?s' # trailing_stops ps ?s' False). x \<le> s" by auto
  with tail show ?case by (simp add: Let_def)
qed

text \<open>Along falling prices a stop that is already within 2 percent of the first price stays.\<close>

lemma trailing_stops_long_falling:
  "sorted_wrt (\<lambda>x y. x > y) (p # ps) \<Longrightarrow> p * 0.98 \<le> s \<Longrightarrow>
   trailing_stops (p # ps) s True = replicate (Suc (length ps)) s"
proof (induction ps arbitrary: p)
  case Nil
  then show ?case by (simp add: update_trailing_stop_long)
next
  case (Cons q ps)
  have upd: "update_trailing_stop p s True = s"
    using Cons.prems(2) by (simp add: update_trailing_stop_long)
  have "sorted_wrt (\<lambda>x y. x > y) (q # ps)" using Cons.prems(1) by simp
  moreover have "q * 0.98 \<le> s" using Cons.prems by simp
  ultimately have ih: "trailing_stops (q # ps) s True = replicate (Suc (length ps)) s"
    by (rule Cons.IH)
  have "trailing_stops (p # q # ps) s True = s # trailing_stops (q # ps) s True"
    using upd by (simp add: Let_def)
  also have "\<dots> = s # replicate (Suc (length ps)) s" by (simp only: ih)
  finally show ?case by simp
qed

text \<open>In general only the first price of a falling sequence can move the stop.\<close>

lemma trailing_stops_long_first:
  assumes "sorted_wrt (\<lambda>x y. x > y) (p # ps)"
  shows "trailing_stops (p # ps) s True = replicate (Suc (length ps)) (max s (p * 0.98))"
proof (cases ps)
  case Nil
  then show ?thesis by (simp add: update_trailing_stop_long)
next
  case (Cons q qs)
  let ?s' = "max s (p * 0.98)"
  have "sorted_wrt (\<lambda>x y. x > y) (q # qs)" using assms Cons by simp
  moreover have "q * 0.98 \<le> ?s'"
  proof -
    have "q < p" using assms Cons by simp
    then have "q * 0.98 \<le> p * 0.98" by simp
    also have "\<dots> \<le> ?s'" by simp
    finally show ?thesis .
  qed
  ultimately have tl: "trailing_stops (q # qs) ?s' True = replicate (Suc (length qs)) ?s'"
    by (rule trailing_stops_long_falling)
  have "trailing_stops (p # q # qs) s True = ?s' # trailing_stops (q # qs) ?s' True"
    by (simp add: update_trailing_stop_long Let_def)
  also have "\<dots> = ?s' # replicate (Suc (length qs)) ?s'" by (simp only: tl)
  finally show ?thesis using Cons by simp
qed

text \<open>
  Claim C3, as stated, says that a decreasing price sequence leaves the stop of a long
  position unchanged. It fails when the stop starts more than 2 percent below the first
  price: from a stop of 90 the falling prices 100, 99 give the stops 98, 98.
\<close>

theorem update_trailing_stop_falling_counterexample:
  "sorted_wrt (\<lambda>x y. x > y) [100, 99 :: real]
   \<and> trailing_stops [100, 99] 90 True = [98, 98]
   \<and> last (trailing_stops [100, 99] 90 True) \<noteq> 90"
  by (simp add: update_trailing_stop_def Let_def)

text \<open>
  Claim C3, amended. \<^verbatim>\<open>update_trailing_stop\<close> returns \<open>max(stop, price \<times> 0.98)\<close>
  for a long position and \<open>min(stop, price \<times> 1.02)\<close> for a short one. Along every
  price sequence (so along every strictly increasing one) the successive stops of a long
  position are non-decreasing, and those of a short position are non-increasing. Along a
  strictly decreasing price sequence every stop of a long position equals
  \<open>max(stop, first price \<times> 0.98)\<close>: only the first price can move the stop, and the stop
  is unchanged throughout when it is already at least \<open>first price \<times> 0.98\<close>.
\<close>

theorem update_trailing_stop_ratchet:
  "update_trailing_stop p s True = max s (p * 0.98)
   \<and> update_trailing_stop p s False = min s (p * 1.02)
   \<and> sorted (s # trailing_stops ps s True)
   \<and> sorted_wrt (\<lambda>x y. x \<ge> y) (s # trailing_stops ps s False)
   \<and> (sorted_wrt (\<lambda>x y. x > y) (q # qs) \<longrightarrow>
        trailing_stops (q # qs) s True = replicate (Suc (length qs)) (max s (q * 0.98)))
   \<and> (sorted_wrt (\<lambda>x y. x > y) (q # qs) \<and> q * 0.98 \<le> s \<longrightarrow>
        trailing_stops (q # qs) s True = replicate (Suc (length qs)) s)"
  using update_trailing_stop_long update_trailing_stop_short trailing_stops_long_sorted
    trailing_stops_short_sorted trailing_stops_long_first trailing_stops_long_falling
  by blast

theorem update_trailing_stop_ratchet_witness:
  "update_trailing_stop 105 98 True = 102.9
   \<and> update_trailing_stop 95 102 False = 96.9
   \<and> sorted (98 # trailing_stops [100, 105, 110] 98 True)
   \<and> sorted_wrt (\<lambda>x y. x > y) [100, 99 :: real]
   \<and> trailing_stops [100, 99] 98 True = [98, 98]
   \<and> trailing_stops [100, 99] 90 True = [98, 98]"
  using update_trailing_stop_ratchet [of 105 98 "[100, 105, 110]" 100 "[99]"]
    update_trailing_stop_ratchet [of 95 102 "[]" 100 "[99]"]
    update_trailing_stop_ratchet [of 105 90 "[]" 100 "[99]"]
  by simp

subsection \<open>Recording a loss\<close>

lemma foldl_update_daily_loss_mono:
  "daily_loss_incurred rm \<le> daily_loss_incurred (foldl update_daily_loss rm amounts)"
proof (induction amounts arbitrary: rm)
  case Nil
  show ?case by simp
next
  case (Cons a amounts)
  have "daily_loss_incurred rm \<le> daily_loss_incurred (update_daily_loss rm a)"
    by (simp add: update_daily_loss_def)
  also have "\<dots> \<le> daily_loss_incurred (foldl update_daily_loss (update_daily_loss rm a) amounts)"
    by (rule Cons.IH)
  finally show ?case by simp
qed

text \<open>
  Claim C4. A positive amount is added to \<open>daily_loss_incurred\<close> and subtracted from
  \<open>account_balance\<close>, the other fields staying as they are; an amount that is zero or
  negative leaves the whole state unchanged (the call returns normally in every case:
  the model has no error result because the source has no raise). Along every sequence
  of calls the loss of the day after a prefix of the calls is at most the loss after
  more of them.
\<close>

theorem update_daily_loss_effect:
  "(0 < a \<longrightarrow>
      daily_loss_incurred (update_daily_loss rm a) = daily_loss_incurred rm + a
      \<and> account_balance (update_daily_loss rm a) = account_balance rm - a
      \<and> initial_balance (update_daily_loss rm a) = initial_balance rm
      \<and> risk_per_trade_percentage (update_daily_loss rm a) = risk_per_trade_percentage rm
      \<and> daily_risk_limit_percentage (update_daily_loss rm a) = daily_risk_limit_percentage rm)
   \<and> (a \<le> 0 \<longrightarrow> update_daily_loss rm a = rm)
   \<and> daily_loss_incurred (foldl update_daily_loss rm amounts)
        \<le> daily_loss_incurred (foldl update_daily_loss rm (amounts @ later))"
proof -
  have "daily_loss_incurred (foldl update_daily_loss rm amounts)
        \<le> daily_loss_incurred (foldl update_daily_loss (foldl update_daily_loss rm amounts) later)"
    by (rule foldl_update_daily_loss_mono)
  then show ?thesis by (simp add: update_daily_loss_def)
qed

theorem update_daily_loss_effect_witness:
  "daily_loss_incurred (update_daily_loss \<lparr> account_balance = 10000, initial_balance = 10000,
       risk_per_trade_percentage = 0.01, daily_risk_limit_percentage = 0.05,
       daily_loss_incurred = 0 \<rparr> 150) = 150
   \<and> account_balance (update_daily_loss \<lparr> account_balance = 10000, initial_balance = 10000,
       risk_per_trade_percentage = 0.01, daily_risk_limit_percentage = 0.05,
       daily_loss_incurred = 0 \<rparr> 150) = 9850
   \<and> update_daily_loss \<lparr> account_balance = 10000, initial_balance = 10000,
       risk_per_trade_percentage = 0.01, daily_risk_limit_percentage = 0.05,
       daily_loss_incurred = 0 \<rparr> (-50) = \<lparr> account_balance = 10000, initial_balance = 10000,
       risk_per_trade_percentage = 0.01, daily_risk_limit_percentage = 0.05,
       daily_loss_incurred = 0 \<rparr>
   \<and> update_daily_loss \<lparr> account_balance = 10000, initial_balance = 10000,
       risk_per_trade_percentage = 0.01, daily_risk_limit_percentage = 0.05,
       daily_loss_incurred = 0 \<rparr> 0 = \<lparr> account_balance = 10000, initial_balance = 10000,
       risk_per_trade_percentage = 0.01, daily_risk_limit_percentage = 0.05,
       daily_loss_incurred = 0 \<rparr>
   \<and> daily_loss_incurred (foldl update_daily_loss \<lparr> account_balance = 10000, initial_balance = 10000,
       risk_per_trade_percentage = 0.01, daily_risk_limit_percentage = 0.05,
       daily_loss_incurred = 0 \<rparr> [150, -50])
        \<le> daily_loss_incurred (foldl update_daily_loss \<lparr> account_balance = 10000, initial_balance = 10000,
       risk_per_trade_percentage = 0.01, daily_risk_limit_percentage = 0.05,
       daily_loss_incurred = 0 \<rparr> ([150, -50] @ [0, 25]))"
  using update_daily_loss_effect [of 150 "\<lparr> account_balance = 10000, initial_balance = 10000,
       risk_per_trade_percentage = 0.01, daily_risk_limit_percentage = 0.05,
       daily_loss_incurred = 0 \<rparr>" "[150, -50]" "[0, 25]"]
    update_daily_loss_effect [of "-50" "\<lparr> account_balance = 10000, initial_balance = 10000,
       risk_per_trade_percentage = 0.01, daily_risk_limit_percentage = 0.05,
       daily_loss_incurred = 0 \<rparr>" "[]" "[]"]
    update_daily_loss_effect [of 0 "\<lparr> account_balance = 10000, initial_balance = 10000,
       risk_per_trade_percentage = 0.01, daily_risk_limit_percentage = 0.05,
       daily_loss_incurred = 0 \<rparr>" "[]" "[]"]
  by simp

subsection \<open>The take-profit price\<close>

text \<open>
  What \<^verbatim>\<open>determine_take_profit\<close> computes on positive inputs, and that any input that
  is not positive gives the undefined result.
\<close>

lemma determine_take_profit_cases:
  "0 < entry \<Longrightarrow> 0 < stop \<Longrightarrow> 0 < ratio \<Longrightarrow>
   determine_take_profit entry stop ratio =
     (if entry > stop then Some (entry + \<bar>entry - stop\<bar> * ratio)
      else if entry < stop then
        (if entry - \<bar>entry - stop\<bar> * ratio < 0 then Some (entry * 0.05)
         else Some (entry - \<bar>entry - stop\<bar> * ratio))
      else nan)"
  by (simp add: determine_take_profit_def Let_def)

lemma determine_take_profit_undefined:
  "entry \<le> 0 \<or> stop \<le> 0 \<or> ratio \<le> 0 \<or> entry = stop \<Longrightarrow>
   determine_take_profit entry stop ratio = nan"
  by (auto simp add: determine_take_profit_def Let_def)

lemma determine_take_profit_short_example: "determine_take_profit 100 101 2 = Some 98"
  by (simp add: determine_take_profit_def Let_def)

text \<open>
  Claim C6 says that the short-case result is floored to \<open>entry \<times> 0.05\<close> whenever it
  would be zero or negative. The source tests \<open>take_profit_price < 0\<close>, so a result of
  exactly zero is returned as it is: entry 100, stop 150 and ratio 2 give 0, not 5.
\<close>

theorem determine_take_profit_zero_not_floored:
  "determine_take_profit 100 150 2 = Some 0
   \<and> determine_take_profit 100 150 2 \<noteq> Some (100 * 0.05)"
  by (simp add: determine_take_profit_def Let_def)

text \<open>
  Claim C7, as stated, fails where the floor of the short case applies: entry 100,
  offset 10 and ratio 20 give 300 for the long case, 200 above the entry, and 5 for the
  short case, 95 below it.
\<close>

theorem determine_take_profit_floor_counterexample:
  "determine_take_profit 100 (100 - 10) 20 = Some (100 + 200)
   \<and> determine_take_profit 100 (100 + 10) 20 = Some (100 - 95)"
  by (simp add: determine_take_profit_def Let_def)

text \<open>
  Claim C7, amended. For an entry price above 0, an offset \<open>d\<close> with \<open>0 < d < entry\<close>
  (so that the stop of the long case is positive) and a ratio above 0 with
  \<open>d \<times> ratio < entry\<close> (so that the short case stays above 0), the take profit of the
  long case (stop \<open>entry - d\<close>) lies \<open>d \<times> ratio\<close> above the entry and that of the short
  case (stop \<open>entry + d\<close>) lies \<open>d \<times> ratio\<close> below it.
\<close>

theorem determine_take_profit_opposite_offsets:
  "0 < entry \<Longrightarrow> 0 < d \<Longrightarrow> d < entry \<Longrightarrow> 0 < ratio \<Longrightarrow> d * ratio < entry \<Longrightarrow>
   determine_take_profit entry (entry - d) ratio = Some (entry + d * ratio)
   \<and> determine_take_profit entry (entry + d) ratio = Some (entry - d * ratio)"
  by (simp add: determine_take_profit_def Let_def)

theorem determine_take_profit_opposite_offsets_witness:
  "determine_take_profit 100 (100 - 1) 2 = Some (100 + 1 * 2)
   \<and> determine_take_profit 100 (100 + 1) 2 = Some (100 - 1 * 2)"
  using determine_take_profit_opposite_offsets [of 100 1 2] by simp

subsection \<open>The balance is positive at construction only\<close>

lemma rm_run_nonpositive:
  "account_balance rm \<le> 0 \<Longrightarrow> account_balance (rm_run rm calls) \<le> 0"
  unfolding rm_run_def
proof (induction calls arbitrary: rm)
  case Nil
  then show ?case by simp
next
  case (Cons c calls)
  have "account_balance (rm_step rm c) \<le> 0"
    using Cons.prems by (cases c) (simp_all add: update_daily_loss_def reset_daily_loss_def)
  then have "account_balance (foldl rm_step (rm_step rm c) calls) \<le> 0"
    by (rule Cons.IH)
  then show ?case by simp
qed

lemma rm_run_reachable: "reachable rm \<Longrightarrow> reachable (rm_run rm calls)"
  unfolding rm_run_def
proof (induction calls arbitrary: rm)
  case Nil
  then show ?case by simp
next
  case (Cons c calls)
  have "reachable (rm_step rm c)" using Cons.prems by (rule reach_step)
  then have "reachable (foldl rm_step (rm_step rm c) calls)" by (rule Cons.IH)
  then show ?case by simp
qed

lemma update_daily_loss_reachable: "reachable rm \<Longrightarrow> reachable (update_daily_loss rm amount)"
  using reach_step [of rm "UpdateDailyLoss amount"] by simp

lemma init_reachable_example:
  "reachable \<lparr> account_balance = 10000, initial_balance = 10000,
       risk_per_trade_percentage = 0.01, daily_risk_limit_percentage = 0.05,
       daily_loss_incurred = 0 \<rparr>"
  by (rule reach_init [of 10000 "0.01" "0.05"]) (simp add: RiskManager_init_def)

text \<open>
  Claim C10. A successful construction gives a positive balance, and the state is
  reachable. Some reachable state with a positive balance is taken to a balance of at
  most 0 by one \<^verbatim>\<open>update_daily_loss\<close> call whose amount is at least the balance, and
  this holds for every such state and amount. The state after the call is reachable
  again: the call is not refused. From a balance of at most 0 no run of the calls that
  change a RiskManager brings the balance above 0 again.
\<close>

theorem account_balance_positivity_not_preserved:
  "(RiskManager_init b r dl = Inr rm0 \<longrightarrow> 0 < account_balance rm0 \<and> reachable rm0)
   \<and> (\<exists>rm1 amount1. reachable rm1 \<and> 0 < account_balance rm1 \<and> account_balance rm1 \<le> amount1
          \<and> reachable (update_daily_loss rm1 amount1)
          \<and> account_balance (update_daily_loss rm1 amount1) \<le> 0)
   \<and> (0 < account_balance rm \<and> account_balance rm \<le> amount \<longrightarrow>
          account_balance (update_daily_loss rm amount) \<le> 0)
   \<and> (reachable rm \<longrightarrow> reachable (update_daily_loss rm amount) \<and> reachable (rm_run rm calls))
   \<and> (account_balance rm \<le> 0 \<longrightarrow> account_balance (rm_run rm calls) \<le> 0)"
proof -
  have init: "RiskManager_init b r dl = Inr rm0 \<longrightarrow> 0 < account_balance rm0 \<and> reachable rm0"
  proof
    assume a: "RiskManager_init b r dl = Inr rm0"
    then have "0 < account_balance rm0"
      by (auto simp add: RiskManager_init_def split: if_splits)
    moreover have "reachable rm0" using a by (rule reach_init)
    ultimately show "0 < account_balance rm0 \<and> reachable rm0" by simp
  qed
  let ?rm = "\<lparr> account_balance = 10000, initial_balance = 10000,
       risk_per_trade_percentage = 0.01, daily_risk_limit_percentage = 0.05,
       daily_loss_incurred = 0 \<rparr>"
  have ex: "\<exists>rm1 amount1. reachable rm1 \<and> 0 < account_balance rm1 \<and> account_balance rm1 \<le> amount1
          \<and> reachable (update_daily_loss rm1 amount1)
          \<and> account_balance (update_daily_loss rm1 amount1) \<le> 0"
  proof (intro exI conjI)
    show "reachable ?rm" by (rule init_reachable_example)
    then show "reachable (update_daily_loss ?rm 10000)" by (rule update_daily_loss_reachable)
    show "0 < account_balance ?rm" by simp
    show "account_balance ?rm \<le> 10000" by simp
    show "account_balance (update_daily_loss ?rm 10000) \<le> 0"
      by (simp add: update_daily_loss_def)
  qed
  have drop: "0 < account_balance rm \<and> account_balance rm \<le> amount \<longrightarrow>
          account_balance (update_daily_loss rm amount) \<le> 0"
    by (simp add: update_daily_loss_def)
  show ?thesis
    using init ex drop update_daily_loss_reachable rm_run_reachable rm_run_nonpositive
    by blast
qed

theorem account_balance_positivity_not_preserved_witness:
  "RiskManager_init 10000 0.01 0.05 = Inr \<lparr> account_balance = 10000, initial_balance = 10000,
       risk_per_trade_percentage = 0.01, daily_risk_limit_percentage = 0.05,
       daily_loss_incurred = 0 \<rparr>
   \<and> reachable \<lparr> account_balance = 10000, initial_balance = 10000,
       risk_per_trade_percentage = 0.01, daily_risk_limit_percentage = 0.05,
       daily_loss_incurred = 0 \<rparr>
   \<and> account_balance (update_daily_loss \<lparr> account_balance = 10000, initial_balance = 10000,
       risk_per_trade_percentage = 0.01, daily_risk_limit_percentage = 0.05,
       daily_loss_incurred = 0 \<rparr> 12000) \<le> 0
   \<and> account_balance (rm_run (update_daily_loss \<lparr> account_balance = 10000, initial_balance = 10000,
       risk_per_trade_percentage = 0.01, daily_risk_limit_percentage = 0.05,
       daily_loss_incurred = 0 \<rparr> 12000)
        [ResetDailyLoss, UpdateDailyLoss (-5000), UpdateDailyLoss 10]) \<le> 0"
proof -
  let ?rm = "\<lparr> account_balance = 10000, initial_balance = 10000,
       risk_per_trade_percentage = 0.01, daily_risk_limit_percentage = 0.05,
       daily_loss_incurred = 0 \<rparr>"
  have i: "RiskManager_init 10000 0.01 0.05 = Inr ?rm" by (simp add: RiskManager_init_def)
  have b: "0 < account_balance ?rm \<and> account_balance ?rm \<le> 12000" by simp
  have d: "account_balance (update_daily_loss ?rm 12000) \<le> 0"
    using account_balance_positivity_not_preserved [of 10000 "0.01" "0.05" ?rm ?rm 12000 "[]"] b
    by blast
  have "account_balance (rm_run (update_daily_loss ?rm 12000)
          [ResetDailyLoss, UpdateDailyLoss (-5000), UpdateDailyLoss 10]) \<le> 0"
    using account_balance_positivity_not_preserved [of 10000 "0.01" "0.05" ?rm
        "update_daily_loss ?rm 12000" 0
        "[ResetDailyLoss, UpdateDailyLoss (-5000), UpdateDailyLoss 10]"] d
    by blast
  moreover have "reachable ?rm"
    using account_balance_positivity_not_preserved [of 10000 "0.01" "0.05" ?rm ?rm 12000 "[]"] i
    by blast
  ultimately show ?thesis using i d by simp
qed

section \<open>Properties of the AdaptabilityManager\<close>

subsection \<open>The regime tag and the try block\<close>

lemma regime_of_tags:
  "regime_of mc \<in> {''TRENDING_HIGH_VOL'', ''TRENDING_LOW_VOL'', ''RANGING_HIGH_VOL'',
       ''RANGING_LOW_VOL'', ''UNCERTAIN''}"
  by (simp add: regime_of_def)

lemma regime_of_unknown:
  "mc ''trend'' = Some ''unknown'' \<or> mc ''volatility'' = Some ''unknown'' \<Longrightarrow>
   regime_of mc = ''UNCERTAIN''"
  by (auto simp add: regime_of_def)

lemma analyze_try_block_raises:
  "analyze_try_block am lib data = Inl e \<longleftrightarrow>
     average_true_range lib (get_column data ''high'') (get_column data ''low'')
       (get_column data ''close'') 14 = Inl e
     \<or> (\<exists>atr_series.
          average_true_range lib (get_column data ''high'') (get_column data ''low'')
            (get_column data ''close'') 14 = Inr atr_series
          \<and> adx lib (get_column (set_column data ''ATR'' atr_series) ''high'')
               (get_column (set_column data ''ATR'' atr_series) ''low'')
               (get_column (set_column data ''ATR'' atr_series) ''close'') 14 = Inl e)"
  by (auto simp add: analyze_try_block_def Let_def split: sum.splits)

lemma regime_of_upd: "regime_of (mc(''regime'' \<mapsto> x)) = regime_of mc"
  by (simp add: regime_of_def)

lemma analyze_try_block_result:
  assumes "analyze_try_block am lib data = Inr mc"
  shows "\<exists>t v. mc ''trend'' = Some t \<and> mc ''volatility'' = Some v
           \<and> t \<in> {''trending'', ''ranging'', ''unknown''}
           \<and> v \<in> {''high'', ''low'', ''unknown''}
           \<and> mc ''regime'' = Some (regime_of mc)"
proof -
  define v where "v = (\<lambda>lc :: cell \<times> cell. case lc of
                        (Some a, Some c) \<Rightarrow>
                          if c \<noteq> 0 then
                            (if a / c > volatility_threshold am then ''high'' else ''low'')
                          else ''unknown''
                      | _ \<Rightarrow> ''unknown'')"
  define t where "t = (\<lambda>x :: cell. case x of
                               Some x \<Rightarrow>
                                 if x > trend_strength_threshold am then ''trending''
                                 else ''ranging''
                             | None \<Rightarrow> ''unknown'')"
  have v: "v lc \<in> {''high'', ''low'', ''unknown''}" for lc
    unfolding v_def by (simp split: prod.splits option.splits)
  have t: "t x \<in> {''trending'', ''ranging'', ''unknown''}" for x
    unfolding t_def by (simp split: option.splits)
  from assms obtain lc x where
    mc: "mc = (Map.empty(''volatility'' \<mapsto> v lc, ''trend'' \<mapsto> t x))
               (''regime'' \<mapsto> regime_of (Map.empty(''volatility'' \<mapsto> v lc, ''trend'' \<mapsto> t x)))"
    unfolding analyze_try_block_def Let_def v_def t_def
    by (auto split: sum.splits)
  have "mc ''trend'' = Some (t x)" "mc ''volatility'' = Some (v lc)"
    by (simp_all add: mc)
  moreover have "mc ''regime'' = Some (regime_of mc)"
    by (subst (2) mc, subst regime_of_upd) (simp add: mc)
  ultimately show ?thesis using v t by blast
qed

text \<open>The example bar, with an ATR of 3 and an ADX of 25, and with an ADX that raises.\<close>

lemma one_bar_ok:
  "\<not> df_empty one_bar \<and> list_all (\<lambda>col. col \<in> set (columns one_bar)) [''high'', ''low'', ''close'']"
  by (simp add: df_empty_def one_bar_def)

lemma one_bar_trending_high:
  "analyze_try_block AdaptabilityManager_default (example_library (Inr 3) (Inr 25)) one_bar =
     Inr [''volatility'' \<mapsto> ''high'', ''trend'' \<mapsto> ''trending'', ''regime'' \<mapsto> ''TRENDING_HIGH_VOL'']"
  by (simp add: analyze_try_block_def example_library_def one_bar_def get_column_def set_column_def reindex_def
      latest_def AdaptabilityManager_default_def AdaptabilityManager_init_def regime_of_def Let_def)

lemma one_bar_raises:
  "analyze_try_block AdaptabilityManager_default
     (example_library (Inr 3) (Inl (LibraryError ''adx failed''))) one_bar =
     Inl (LibraryError ''adx failed'')"
  by (simp add: analyze_try_block_def example_library_def one_bar_def get_column_def set_column_def reindex_def
      latest_def Let_def)


subsection \<open>Classification never raises\<close>

text \<open>
  Claim C5. \<^verbatim>\<open>analyze_market_conditions\<close> always returns a dictionary, never an
  exception. On an empty frame, or one without a \<^verbatim>\<open>high\<close>, \<^verbatim>\<open>low\<close> or
  \<^verbatim>\<open>close\<close> column, it is \<open>{regime: UNKNOWN}\<close>. When the try block raises, the result
  is exactly \<open>{regime: UNKNOWN, volatility: unknown, trend: unknown}\<close>. Otherwise the
  dictionary holds a trend, a volatility and the regime tag of that pair: one of the four
  pair tags, or \<open>UNCERTAIN\<close>, which it is when the trend or the volatility is unknown.
  The try block raises exactly when the average-true-range call or the ADX call raises.
\<close>

theorem analyze_market_conditions_fails_soft:
  "(\<exists>mc. analyze_market_conditions am lib data = Inr mc)
   \<and> (df_empty data \<or> \<not> list_all (\<lambda>col. col \<in> set (columns data)) [''high'', ''low'', ''close''] \<longrightarrow>
        analyze_market_conditions am lib data = Inr [''regime'' \<mapsto> ''UNKNOWN''])
   \<and> (\<not> df_empty data \<and> list_all (\<lambda>col. col \<in> set (columns data)) [''high'', ''low'', ''close'']
        \<and> analyze_try_block am lib data = Inl e \<longrightarrow>
        analyze_market_conditions am lib data =
          Inr [''regime'' \<mapsto> ''UNKNOWN'', ''volatility'' \<mapsto> ''unknown'', ''trend'' \<mapsto> ''unknown''])
   \<and> (\<not> df_empty data \<and> list_all (\<lambda>col. col \<in> set (columns data)) [''high'', ''low'', ''close'']
        \<and> analyze_try_block am lib data = Inr mc \<longrightarrow>
        analyze_market_conditions am lib data = Inr mc
        \<and> (\<exists>t v. mc ''trend'' = Some t \<and> mc ''volatility'' = Some v
             \<and> t \<in> {''trending'', ''ranging'', ''unknown''}
             \<and> v \<in> {''high'', ''low'', ''unknown''}
             \<and> mc ''regime'' = Some
                  (if t = ''trending'' \<and> v = ''high'' then ''TRENDING_HIGH_VOL''
                   else if t = ''trending'' \<and> v = ''low'' then ''TRENDING_LOW_VOL''
                   else if t = ''ranging'' \<and> v = ''high'' then ''RANGING_HIGH_VOL''
                   else if t = ''ranging'' \<and> v = ''low'' then ''RANGING_LOW_VOL''
                   else ''UNCERTAIN'')
             \<and> (t = ''unknown'' \<or> v = ''unknown'' \<longrightarrow> mc ''regime'' = Some ''UNCERTAIN'')))
   \<and> (analyze_try_block am lib data = Inl e \<longleftrightarrow>
        average_true_range lib (get_column data ''high'') (get_column data ''low'')
          (get_column data ''close'') 14 = Inl e
        \<or> (\<exists>atr_series.
             average_true_range lib (get_column data ''high'') (get_column data ''low'')
               (get_column data ''close'') 14 = Inr atr_series
             \<and> adx lib (get_column (set_column data ''ATR'' atr_series) ''high'')
                  (get_column (set_column data ''ATR'' atr_series) ''low'')
                  (get_column (set_column data ''ATR'' atr_series) ''close'') 14 = Inl e))"
proof -
  have total: "\<exists>mc. analyze_market_conditions am lib data = Inr mc"
    by (simp add: analyze_market_conditions_def split: sum.splits)
  have early: "df_empty data \<or> \<not> list_all (\<lambda>col. col \<in> set (columns data)) [''high'', ''low'', ''close''] \<longrightarrow>
        analyze_market_conditions am lib data = Inr [''regime'' \<mapsto> ''UNKNOWN'']"
    by (simp add: analyze_market_conditions_def)
  have handler: "\<not> df_empty data \<and> list_all (\<lambda>col. col \<in> set (columns data)) [''high'', ''low'', ''close'']
        \<and> analyze_try_block am lib data = Inl e \<longrightarrow>
        analyze_market_conditions am lib data =
          Inr [''regime'' \<mapsto> ''UNKNOWN'', ''volatility'' \<mapsto> ''unknown'', ''trend'' \<mapsto> ''unknown'']"
    by (simp add: analyze_market_conditions_def)
  have normal: "\<not> df_empty data \<and> list_all (\<lambda>col. col \<in> set (columns data)) [''high'', ''low'', ''close'']
        \<and> analyze_try_block am lib data = Inr mc \<longrightarrow>
        analyze_market_conditions am lib data = Inr mc
        \<and> (\<exists>t v. mc ''trend'' = Some t \<and> mc ''volatility'' = Some v
             \<and> t \<in> {''trending'', ''ranging'', ''unknown''}
             \<and> v \<in> {''high'', ''low'', ''unknown''}
             \<and> mc ''regime'' = Some
                  (if t = ''trending'' \<and> v = ''high'' then ''TRENDING_HIGH_VOL''
                   else if t = ''trending'' \<and> v = ''low'' then ''TRENDING_LOW_VOL''
                   else if t = ''ranging'' \<and> v = ''high'' then ''RANGING_HIGH_VOL''
                   else if t = ''ranging'' \<and> v = ''low'' then ''RANGING_LOW_VOL''
                   else ''UNCERTAIN'')
             \<and> (t = ''unknown'' \<or> v = ''unknown'' \<longrightarrow> mc ''regime'' = Some ''UNCERTAIN''))"
  proof (intro impI, elim conjE)
    assume ne: "\<not> df_empty data"
      and cols: "list_all (\<lambda>col. col \<in> set (columns data)) [''high'', ''low'', ''close'']"
      and blk: "analyze_try_block am lib data = Inr mc"
    have res: "analyze_market_conditions am lib data = Inr mc"
      using ne cols blk by (simp add: analyze_market_conditions_def)
    from analyze_try_block_result [OF blk] obtain t v where
      t: "mc ''trend'' = Some t" and v: "mc ''volatility'' = Some v"
      and tin: "t \<in> {''trending'', ''ranging'', ''unknown''}"
      and vin: "v \<in> {''high'', ''low'', ''unknown''}"
      and r: "mc ''regime'' = Some (regime_of mc)" by blast
    have r': "regime_of mc =
                  (if t = ''trending'' \<and> v = ''high'' then ''TRENDING_HIGH_VOL''
                   else if t = ''trending'' \<and> v = ''low'' then ''TRENDING_LOW_VOL''
                   else if t = ''ranging'' \<and> v = ''high'' then ''RANGING_HIGH_VOL''
                   else if t = ''ranging'' \<and> v = ''low'' then ''RANGING_LOW_VOL''
                   else ''UNCERTAIN'')"
      by (simp add: regime_of_def t v)
    have u: "t = ''unknown'' \<or> v = ''unknown'' \<longrightarrow> mc ''regime'' = Some ''UNCERTAIN''"
      using regime_of_unknown [of mc] t v r by auto
    show "analyze_market_conditions am lib data = Inr mc
        \<and> (\<exists>t v. mc ''trend'' = Some t \<and> mc ''volatility'' = Some v
             \<and> t \<in> {''trending'', ''ranging'', ''unknown''}
             \<and> v \<in> {''high'', ''low'', ''unknown''}
             \<and> mc ''regime'' = Some
                  (if t = ''trending'' \<and> v = ''high'' then ''TRENDING_HIGH_VOL''
                   else if t = ''trending'' \<and> v = ''low'' then ''TRENDING_LOW_VOL''
                   else if t = ''ranging'' \<and> v = ''high'' then ''RANGING_HIGH_VOL''
                   else if t = ''ranging'' \<and> v = ''low'' then ''RANGING_LOW_VOL''
                   else ''UNCERTAIN'')
             \<and> (t = ''unknown'' \<or> v = ''unknown'' \<longrightarrow> mc ''regime'' = Some ''UNCERTAIN''))"
      using res t v tin vin r r' u by (intro conjI exI [of _ t] exI [of _ v]) simp_all
  qed
  show ?thesis using total early handler normal analyze_try_block_raises by (intro conjI)
qed

theorem analyze_market_conditions_fails_soft_witness:
  "analyze_market_conditions AdaptabilityManager_default (example_library (Inr 3) (Inr 25))
      \<lparr> columns = [''high'', ''low'', ''close''], rows = [] \<rparr> = Inr [''regime'' \<mapsto> ''UNKNOWN'']
   \<and> analyze_market_conditions AdaptabilityManager_default
        (example_library (Inr 3) (Inl (LibraryError ''adx failed''))) one_bar =
        Inr [''regime'' \<mapsto> ''UNKNOWN'', ''volatility'' \<mapsto> ''unknown'', ''trend'' \<mapsto> ''unknown'']
   \<and> analyze_market_conditions AdaptabilityManager_default (example_library (Inr 3) (Inr 25)) one_bar =
        Inr [''volatility'' \<mapsto> ''high'', ''trend'' \<mapsto> ''trending'', ''regime'' \<mapsto> ''TRENDING_HIGH_VOL'']"
proof -
  have e: "df_empty \<lparr> columns = [''high'', ''low'', ''close''], rows = [] \<rparr>"
    by (simp add: df_empty_def)
  have 1: "analyze_market_conditions AdaptabilityManager_default (example_library (Inr 3) (Inr 25))
      \<lparr> columns = [''high'', ''low'', ''close''], rows = [] \<rparr> = Inr [''regime'' \<mapsto> ''UNKNOWN'']"
    using analyze_market_conditions_fails_soft [of AdaptabilityManager_default "example_library (Inr 3) (Inr 25)"
        "\<lparr> columns = [''high'', ''low'', ''close''], rows = [] \<rparr>"] e by blast
  have 2: "analyze_market_conditions AdaptabilityManager_default
        (example_library (Inr 3) (Inl (LibraryError ''adx failed''))) one_bar =
        Inr [''regime'' \<mapsto> ''UNKNOWN'', ''volatility'' \<mapsto> ''unknown'', ''trend'' \<mapsto> ''unknown'']"
    using analyze_market_conditions_fails_soft [of AdaptabilityManager_default
        "example_library (Inr 3) (Inl (LibraryError ''adx failed''))" one_bar
        "LibraryError ''adx failed''"] one_bar_ok one_bar_raises by blast
  have 3: "analyze_market_conditions AdaptabilityManager_default (example_library (Inr 3) (Inr 25)) one_bar =
        Inr [''volatility'' \<mapsto> ''high'', ''trend'' \<mapsto> ''trending'', ''regime'' \<mapsto> ''TRENDING_HIGH_VOL'']"
    using analyze_market_conditions_fails_soft [of AdaptabilityManager_default "example_library (Inr 3) (Inr 25)" one_bar _
        "[''volatility'' \<mapsto> ''high'', ''trend'' \<mapsto> ''trending'', ''regime'' \<mapsto> ''TRENDING_HIGH_VOL'']"]
      one_bar_ok one_bar_trending_high by blast
  show ?thesis using 1 2 3 by (intro conjI)
qed


subsection \<open>The suggestion for a trending market of high volatility\<close>

lemma suggest_trending_high_vol:
  assumes "mc ''regime'' = Some ''TRENDING_HIGH_VOL''" and "mc ''volatility'' = Some ''high''"
  shows "suggest_strategy_adjustment mc =
     \<lparr> strategy_type = ''trend_following'', risk_per_trade_multiplier = 0.8,
       stop_loss_multiplier = 1.8, take_profit_multiplier = 2.0 \<rparr>"
  using assms by (simp add: suggest_strategy_adjustment_def Let_def)


text \<open>
  Claim C8, as stated, gives a stop-loss multiplier of 0.96 (0.8 \<times> 1.2). The value 0.8 is
  the risk-per-trade multiplier of the regime; its stop-loss multiplier is 1.5, and the
  adjustment for high volatility makes it 1.8.
\<close>

theorem suggest_strategy_adjustment_stop_loss_counterexample:
  "stop_loss_multiplier (suggest_strategy_adjustment
     [''trend'' \<mapsto> ''trending'', ''volatility'' \<mapsto> ''high'', ''regime'' \<mapsto> ''TRENDING_HIGH_VOL'']) = 1.8
   \<and> stop_loss_multiplier (suggest_strategy_adjustment
     [''trend'' \<mapsto> ''trending'', ''volatility'' \<mapsto> ''high'', ''regime'' \<mapsto> ''TRENDING_HIGH_VOL'']) \<noteq> 0.96"
  by (simp add: suggest_strategy_adjustment_def Let_def)


text \<open>
  Claim C8, amended. Conditions with trend \<open>trending\<close> and volatility \<open>high\<close> have the
  regime tag \<open>TRENDING_HIGH_VOL\<close>, and \<^verbatim>\<open>suggest_strategy_adjustment\<close> on them (with
  that regime) returns the strategy \<open>trend_following\<close> with a stop-loss multiplier of
  1.8 (1.5 \<times> 1.2 after the adjustment for high volatility), a take-profit multiplier
  of 2.0 and a risk-per-trade multiplier of 0.8. So does every dictionary with that trend
  and volatility that \<^verbatim>\<open>analyze_market_conditions\<close> returns.
\<close>

theorem suggest_strategy_adjustment_trending_high_vol:
  "(mc ''trend'' = Some ''trending'' \<and> mc ''volatility'' = Some ''high'' \<longrightarrow>
      regime_of mc = ''TRENDING_HIGH_VOL''
      \<and> suggest_strategy_adjustment (mc(''regime'' \<mapsto> regime_of mc)) =
          \<lparr> strategy_type = ''trend_following'', risk_per_trade_multiplier = 0.8,
            stop_loss_multiplier = 1.5 * 1.2, take_profit_multiplier = 2.0 \<rparr>)
   \<and> (analyze_market_conditions am lib data = Inr mc
        \<and> mc ''trend'' = Some ''trending'' \<and> mc ''volatility'' = Some ''high'' \<longrightarrow>
      mc ''regime'' = Some ''TRENDING_HIGH_VOL''
      \<and> stop_loss_multiplier (suggest_strategy_adjustment mc) = 1.8
      \<and> take_profit_multiplier (suggest_strategy_adjustment mc) = 2.0
      \<and> risk_per_trade_multiplier (suggest_strategy_adjustment mc) = 0.8)"
proof -
  have a: "mc ''trend'' = Some ''trending'' \<and> mc ''volatility'' = Some ''high'' \<longrightarrow>
      regime_of mc = ''TRENDING_HIGH_VOL''
      \<and> suggest_strategy_adjustment (mc(''regime'' \<mapsto> regime_of mc)) =
          \<lparr> strategy_type = ''trend_following'', risk_per_trade_multiplier = 0.8,
            stop_loss_multiplier = 1.5 * 1.2, take_profit_multiplier = 2.0 \<rparr>"
  proof (intro impI, elim conjE)
    assume t: "mc ''trend'' = Some ''trending''" and v: "mc ''volatility'' = Some ''high''"
    have r: "regime_of mc = ''TRENDING_HIGH_VOL''" by (simp add: regime_of_def t v)
    have "suggest_strategy_adjustment (mc(''regime'' \<mapsto> regime_of mc)) =
          \<lparr> strategy_type = ''trend_following'', risk_per_trade_multiplier = 0.8,
            stop_loss_multiplier = 1.8, take_profit_multiplier = 2.0 \<rparr>"
      by (rule suggest_trending_high_vol) (simp_all add: r v)
    then show "regime_of mc = ''TRENDING_HIGH_VOL''
      \<and> suggest_strategy_adjustment (mc(''regime'' \<mapsto> regime_of mc)) =
          \<lparr> strategy_type = ''trend_following'', risk_per_trade_multiplier = 0.8,
            stop_loss_multiplier = 1.5 * 1.2, take_profit_multiplier = 2.0 \<rparr>"
      using r by simp
  qed
  have b: "analyze_market_conditions am lib data = Inr mc
        \<and> mc ''trend'' = Some ''trending'' \<and> mc ''volatility'' = Some ''high'' \<longrightarrow>
      mc ''regime'' = Some ''TRENDING_HIGH_VOL''
      \<and> stop_loss_multiplier (suggest_strategy_adjustment mc) = 1.8
      \<and> take_profit_multiplier (suggest_strategy_adjustment mc) = 2.0
      \<and> risk_per_trade_multiplier (suggest_strategy_adjustment mc) = 0.8"
  proof (intro impI, elim conjE)
    assume an: "analyze_market_conditions am lib data = Inr mc"
      and t: "mc ''trend'' = Some ''trending''" and v: "mc ''volatility'' = Some ''high''"
    have "analyze_try_block am lib data = Inr mc"
      using an t by (auto simp add: analyze_market_conditions_def split: if_splits sum.splits)
    then have "mc ''regime'' = Some (regime_of mc)"
      using analyze_try_block_result by blast
    then have r: "mc ''regime'' = Some ''TRENDING_HIGH_VOL''"
      by (simp add: regime_of_def t v)
    show "mc ''regime'' = Some ''TRENDING_HIGH_VOL''
      \<and> stop_loss_multiplier (suggest_strategy_adjustment mc) = 1.8
      \<and> take_profit_multiplier (suggest_strategy_adjustment mc) = 2.0
      \<and> risk_per_trade_multiplier (suggest_strategy_adjustment mc) = 0.8"
      using r suggest_trending_high_vol [OF r v] by simp
  qed
  show ?thesis using a b by (intro conjI)
qed


theorem suggest_strategy_adjustment_trending_high_vol_witness:
  "regime_of [''trend'' \<mapsto> ''trending'', ''volatility'' \<mapsto> ''high''] = ''TRENDING_HIGH_VOL''
   \<and> analyze_market_conditions AdaptabilityManager_default (example_library (Inr 3) (Inr 25)) one_bar =
        Inr [''volatility'' \<mapsto> ''high'', ''trend'' \<mapsto> ''trending'', ''regime'' \<mapsto> ''TRENDING_HIGH_VOL'']
   \<and> stop_loss_multiplier (suggest_strategy_adjustment
        [''volatility'' \<mapsto> ''high'', ''trend'' \<mapsto> ''trending'', ''regime'' \<mapsto> ''TRENDING_HIGH_VOL'']) = 1.8
   \<and> take_profit_multiplier (suggest_strategy_adjustment
        [''volatility'' \<mapsto> ''high'', ''trend'' \<mapsto> ''trending'', ''regime'' \<mapsto> ''TRENDING_HIGH_VOL'']) = 2"
proof -
  let ?mc = "[''volatility'' \<mapsto> ''high'', ''trend'' \<mapsto> ''trending'', ''regime'' \<mapsto> ''TRENDING_HIGH_VOL'']"
  have an: "analyze_market_conditions AdaptabilityManager_default (example_library (Inr 3) (Inr 25)) one_bar
      = Inr ?mc"
    using one_bar_ok one_bar_trending_high by (simp add: analyze_market_conditions_def)
  have tv: "?mc ''trend'' = Some ''trending'' \<and> ?mc ''volatility'' = Some ''high''" by simp
  have tv0: "[''trend'' \<mapsto> ''trending'', ''volatility'' \<mapsto> ''high''] ''trend'' = Some ''trending''
    \<and> [''trend'' \<mapsto> ''trending'', ''volatility'' \<mapsto> ''high''] ''volatility'' = Some ''high''" by simp
  have 1: "regime_of [''trend'' \<mapsto> ''trending'', ''volatility'' \<mapsto> ''high''] = ''TRENDING_HIGH_VOL''"
    using suggest_strategy_adjustment_trending_high_vol [of "[''trend'' \<mapsto> ''trending'', ''volatility'' \<mapsto> ''high'']"] tv0 by blast
  have 2: "stop_loss_multiplier (suggest_strategy_adjustment ?mc) = 1.8
      \<and> take_profit_multiplier (suggest_strategy_adjustment ?mc) = 2.0"
    using suggest_strategy_adjustment_trending_high_vol [of ?mc AdaptabilityManager_default "example_library (Inr 3) (Inr 25)" one_bar] an tv
    by blast
  show ?thesis using 1 2 an by simp
qed

section \<open>Properties of the CombinedStrategy\<close>

subsection \<open>Columns of a frame\<close>

lemma length_reindex: "length (reindex n series) = n"
  by (simp add: reindex_def)

lemma columns_set_column:
  "set (columns (set_column data name series)) = insert name (set (columns data))"
  by (auto simp add: set_column_def)

lemma length_rows_set_column: "length (rows (set_column data name series)) = length (rows data)"
  by (simp add: set_column_def length_reindex)

lemma get_column_set_column_same:
  "get_column (set_column data name series) name = reindex (length (rows data)) series"
proof -
  have "map ((\<lambda>r. r name) \<circ> (\<lambda>(r, v). r(name := v))) (zip xs ys) = ys"
    if "length xs = length ys" for xs :: "(string \<Rightarrow> cell) list" and ys
    using that by (induction xs ys rule: list_induct2) simp_all
  then show ?thesis
    by (simp add: get_column_def set_column_def length_reindex)
qed

lemma get_column_set_column_other:
  assumes "other \<noteq> name"
  shows "get_column (set_column data name series) other = get_column data other"
proof -
  have "map ((\<lambda>r. r other) \<circ> (\<lambda>(r, v). r(name := v))) (zip xs ys) = map (\<lambda>r. r other) xs"
    if "length xs = length ys" for xs :: "(string \<Rightarrow> cell) list" and ys
    using that assms by (induction xs ys rule: list_induct2) simp_all
  then show ?thesis
    by (simp add: get_column_def set_column_def length_reindex)
qed

lemma columns_dropna: "columns (dropna data) = columns data"
  by (simp add: dropna_def)

lemma rows_dropna:
  "rows (dropna data) = filter (\<lambda>r. list_all (\<lambda>name. \<not> isnan (r name)) (columns data)) (rows data)"
  by (simp add: dropna_def)

lemma dropna_defined:
  "r \<in> set (rows (dropna data)) \<Longrightarrow> name \<in> set (columns data) \<Longrightarrow> \<exists>x. r name = Some x"
  by (auto simp add: rows_dropna list_all_iff isnan_def)

subsection \<open>The analysed frame\<close>

lemma columns_analyzed:
  assumes "{''close'', ''high'', ''low'', ''volume''} \<subseteq> set (columns data)"
  shows "set (columns (analyzed_data st lib data)) =
     {''PVG_SMA_Short'', ''PVG_SMA_Long'', ''SMC_Swing_High'', ''SMC_Swing_Low'', ''TPR_Volume_SMA''}
       \<union> set (columns data)"
  using assms
  by (auto simp add: analyzed_data_def analyze_tpr_def analyze_smc_def analyze_pvg_def Let_def
      columns_set_column)

lemma length_rows_analyzed: "length (rows (analyzed_data st lib data)) = length (rows data)"
  by (simp add: analyzed_data_def analyze_tpr_def analyze_smc_def analyze_pvg_def Let_def
      length_rows_set_column)

lemma get_column_analyzed:
  assumes "{''close'', ''high'', ''low'', ''volume''} \<subseteq> set (columns data)"
  shows "get_column (analyzed_data st lib data) ''PVG_SMA_Short'' =
           reindex (length (rows data)) (sma_indicator lib (get_column data ''close'') (pvg_short_period st))"
    and "get_column (analyzed_data st lib data) ''PVG_SMA_Long'' =
           reindex (length (rows data)) (sma_indicator lib (get_column data ''close'') (pvg_long_period st))"
    and "get_column (analyzed_data st lib data) ''SMC_Swing_High'' =
           reindex (length (rows data))
             (eq_as_int (rolling_max lib (get_column data ''high'') (smc_lookback st)) (get_column data ''high''))"
    and "get_column (analyzed_data st lib data) ''SMC_Swing_Low'' =
           reindex (length (rows data))
             (eq_as_int (rolling_min lib (get_column data ''low'') (smc_lookback st)) (get_column data ''low''))"
    and "get_column (analyzed_data st lib data) ''TPR_Volume_SMA'' =
           reindex (length (rows data)) (sma_indicator lib (get_column data ''volume'') (tpr_volume_period st))"
    and "get_column (analyzed_data st lib data) ''close'' = get_column data ''close''"
  using assms
  by (simp_all add: analyzed_data_def analyze_tpr_def analyze_smc_def analyze_pvg_def Let_def
      columns_set_column length_rows_set_column get_column_set_column_same
      get_column_set_column_other)

text \<open>The cells of the analysed frame, row by row.\<close>

lemma cell_eq_iff: "cell_eq a b \<longleftrightarrow> a \<noteq> None \<and> a = b"
  by (cases a; cases b) simp_all

lemma row_cell: "i < length (rows data) \<Longrightarrow> (rows data ! i) name = get_column data name ! i"
  by (simp add: get_column_def)

lemma reindex_nth:
  "i < n \<Longrightarrow> reindex n series ! i = (if i < length series then series ! i else None)"
  by (simp add: reindex_def nan_def)

lemma eq_as_int_nth:
  "i < length rolled \<Longrightarrow> i < length series \<Longrightarrow>
   eq_as_int rolled series ! i = Some (if rolled ! i \<noteq> None \<and> rolled ! i = series ! i then 1 else 0)"
  by (simp add: eq_as_int_def cell_eq_iff)

lemma length_eq_as_int: "length (eq_as_int rolled series) = min (length rolled) (length series)"
  by (simp add: eq_as_int_def)

lemma get_column_analyzed_other:
  assumes "{''close'', ''high'', ''low'', ''volume''} \<subseteq> set (columns data)"
    and "name \<notin> {''PVG_SMA_Short'', ''PVG_SMA_Long'', ''SMC_Swing_High'', ''SMC_Swing_Low'',
           ''TPR_Volume_SMA''}"
  shows "get_column (analyzed_data st lib data) name = get_column data name"
proof -
  have n: "name \<noteq> ''PVG_SMA_Short''" "name \<noteq> ''PVG_SMA_Long''" "name \<noteq> ''SMC_Swing_High''"
    "name \<noteq> ''SMC_Swing_Low''" "name \<noteq> ''TPR_Volume_SMA''"
    using assms(2) by simp_all
  show ?thesis
    using assms(1)
    by (simp add: analyzed_data_def analyze_tpr_def analyze_smc_def analyze_pvg_def Let_def
        columns_set_column get_column_set_column_other [OF n(1)] get_column_set_column_other [OF n(2)]
        get_column_set_column_other [OF n(3)] get_column_set_column_other [OF n(4)]
        get_column_set_column_other [OF n(5)])
qed

lemma analyzed_row:
  assumes cols: "{''close'', ''high'', ''low'', ''volume''} \<subseteq> set (columns data)"
    and i: "i < length (rows data)"
  shows "(rows (analyzed_data st lib data) ! i) ''PVG_SMA_Short'' =
           (if i < length (sma_indicator lib (map (\<lambda>r. r ''close'') (rows data)) (pvg_short_period st))
            then sma_indicator lib (map (\<lambda>r. r ''close'') (rows data)) (pvg_short_period st) ! i
            else None)"
    and "(rows (analyzed_data st lib data) ! i) ''PVG_SMA_Long'' =
           (if i < length (sma_indicator lib (map (\<lambda>r. r ''close'') (rows data)) (pvg_long_period st))
            then sma_indicator lib (map (\<lambda>r. r ''close'') (rows data)) (pvg_long_period st) ! i
            else None)"
    and "(rows (analyzed_data st lib data) ! i) ''TPR_Volume_SMA'' =
           (if i < length (sma_indicator lib (map (\<lambda>r. r ''volume'') (rows data)) (tpr_volume_period st))
            then sma_indicator lib (map (\<lambda>r. r ''volume'') (rows data)) (tpr_volume_period st) ! i
            else None)"
    and "(rows (analyzed_data st lib data) ! i) ''SMC_Swing_Low'' =
           (if i < length (rolling_min lib (map (\<lambda>r. r ''low'') (rows data)) (smc_lookback st))
            then Some (if rolling_min lib (map (\<lambda>r. r ''low'') (rows data)) (smc_lookback st) ! i \<noteq> None
                        \<and> rolling_min lib (map (\<lambda>r. r ''low'') (rows data)) (smc_lookback st) ! i
                            = (rows data ! i) ''low''
                       then 1 else 0)
            else None)"
    and "(rows (analyzed_data st lib data) ! i) ''SMC_Swing_High'' =
           (if i < length (rolling_max lib (map (\<lambda>r. r ''high'') (rows data)) (smc_lookback st))
            then Some (if rolling_max lib (map (\<lambda>r. r ''high'') (rows data)) (smc_lookback st) ! i \<noteq> None
                        \<and> rolling_max lib (map (\<lambda>r. r ''high'') (rows data)) (smc_lookback st) ! i
                            = (rows data ! i) ''high''
                       then 1 else 0)
            else None)"
proof -
  have ia: "i < length (rows (analyzed_data st lib data))"
    using i by (simp add: length_rows_analyzed)
  note gc = get_column_analyzed [OF cols, of st lib]
  show "(rows (analyzed_data st lib data) ! i) ''PVG_SMA_Short'' =
           (if i < length (sma_indicator lib (map (\<lambda>r. r ''close'') (rows data)) (pvg_short_period st))
            then sma_indicator lib (map (\<lambda>r. r ''close'') (rows data)) (pvg_short_period st) ! i
            else None)"
    unfolding row_cell [OF ia] gc(1) reindex_nth [OF i] by (simp add: get_column_def)
  show "(rows (analyzed_data st lib data) ! i) ''PVG_SMA_Long'' =
           (if i < length (sma_indicator lib (map (\<lambda>r. r ''close'') (rows data)) (pvg_long_period st))
            then sma_indicator lib (map (\<lambda>r. r ''close'') (rows data)) (pvg_long_period st) ! i
            else None)"
    unfolding row_cell [OF ia] gc(2) reindex_nth [OF i] by (simp add: get_column_def)
  show "(rows (analyzed_data st lib data) ! i) ''TPR_Volume_SMA'' =
           (if i < length (sma_indicator lib (map (\<lambda>r. r ''volume'') (rows data)) (tpr_volume_period st))
            then sma_indicator lib (map (\<lambda>r. r ''volume'') (rows data)) (tpr_volume_period st) ! i
            else None)"
    unfolding row_cell [OF ia] gc(5) reindex_nth [OF i] by (simp add: get_column_def)
  show "(rows (analyzed_data st lib data) ! i) ''SMC_Swing_Low'' =
           (if i < length (rolling_min lib (map (\<lambda>r. r ''low'') (rows data)) (smc_lookback st))
            then Some (if rolling_min lib (map (\<lambda>r. r ''low'') (rows data)) (smc_lookback st) ! i \<noteq> None
                        \<and> rolling_min lib (map (\<lambda>r. r ''low'') (rows data)) (smc_lookback st) ! i
                            = (rows data ! i) ''low''
                       then 1 else 0)
            else None)"
    unfolding row_cell [OF ia] gc(4) reindex_nth [OF i]
    using i by (simp add: get_column_def length_eq_as_int eq_as_int_nth)
  show "(rows (analyzed_data st lib data) ! i) ''SMC_Swing_High'' =
           (if i < length (rolling_max lib (map (\<lambda>r. r ''high'') (rows data)) (smc_lookback st))
            then Some (if rolling_max lib (map (\<lambda>r. r ''high'') (rows data)) (smc_lookback st) ! i \<noteq> None
                        \<and> rolling_max lib (map (\<lambda>r. r ''high'') (rows data)) (smc_lookback st) ! i
                            = (rows data ! i) ''high''
                       then 1 else 0)
            else None)"
    unfolding row_cell [OF ia] gc(3) reindex_nth [OF i]
    using i by (simp add: get_column_def length_eq_as_int eq_as_int_nth)
qed

lemma analyzed_row_other:
  assumes cols: "{''close'', ''high'', ''low'', ''volume''} \<subseteq> set (columns data)"
    and i: "i < length (rows data)"
    and name: "name \<notin> {''PVG_SMA_Short'', ''PVG_SMA_Long'', ''SMC_Swing_High'', ''SMC_Swing_Low'',
           ''TPR_Volume_SMA''}"
  shows "(rows (analyzed_data st lib data) ! i) name = (rows data ! i) name"
proof -
  have ia: "i < length (rows (analyzed_data st lib data))"
    using i by (simp add: length_rows_analyzed)
  show ?thesis
    unfolding row_cell [OF ia] row_cell [OF i] get_column_analyzed_other [OF cols name] ..
qed

subsection \<open>The decision on the latest retained bar\<close>

lemma generate_signal_hold:
  "df_empty data \<or> rows (processed_data st lib data) = [] \<Longrightarrow> generate_signal st lib data = HOLD"
  by (auto simp add: generate_signal_def Let_def df_empty_def)

lemma generate_signal_latest:
  assumes cols: "{''close'', ''high'', ''low'', ''volume''} \<subseteq> set (columns data)"
    and ne: "\<not> df_empty data" and rs: "rows (processed_data st lib data) \<noteq> []"
  shows "\<exists>short long sl sh c v.
           last (rows (processed_data st lib data)) ''PVG_SMA_Short'' = Some short
         \<and> last (rows (processed_data st lib data)) ''PVG_SMA_Long'' = Some long
         \<and> last (rows (processed_data st lib data)) ''SMC_Swing_Low'' = Some sl
         \<and> last (rows (processed_data st lib data)) ''SMC_Swing_High'' = Some sh
         \<and> last (rows (processed_data st lib data)) ''close'' = Some c
         \<and> last (rows (processed_data st lib data)) ''TPR_Volume_SMA'' = Some v
         \<and> generate_signal st lib data = spec_signal short long (sl = 1) (sh = 1) c v"
proof -
  define p where "p = processed_data st lib data"
  define r where "r = last (rows p)"
  have pc: "set (columns p) =
     {''PVG_SMA_Short'', ''PVG_SMA_Long'', ''SMC_Swing_High'', ''SMC_Swing_Low'', ''TPR_Volume_SMA''}
       \<union> set (columns data)"
    using columns_analyzed [OF cols] by (simp add: p_def processed_data_def columns_dropna)
  have m: "''PVG_SMA_Short'' \<in> set (columns p)" "''PVG_SMA_Long'' \<in> set (columns p)"
    "''SMC_Swing_Low'' \<in> set (columns p)" "''SMC_Swing_High'' \<in> set (columns p)"
    "''TPR_Volume_SMA'' \<in> set (columns p)"
    unfolding pc by simp_all
  have mc: "''close'' \<in> set (columns p)" unfolding pc using cols by simp
  have rin: "r \<in> set (rows (dropna (analyzed_data st lib data)))"
    using rs by (simp add: r_def p_def processed_data_def)
  have dfn: "\<exists>x. r name = Some x" if "name \<in> set (columns p)" for name
  proof -
    have "name \<in> set (columns (analyzed_data st lib data))"
      using that by (simp add: p_def processed_data_def columns_dropna)
    with rin show ?thesis by (rule dropna_defined)
  qed
  obtain short where short: "r ''PVG_SMA_Short'' = Some short" using dfn [OF m(1)] ..
  obtain long where long: "r ''PVG_SMA_Long'' = Some long" using dfn [OF m(2)] ..
  obtain sl where sl: "r ''SMC_Swing_Low'' = Some sl" using dfn [OF m(3)] ..
  obtain sh where sh: "r ''SMC_Swing_High'' = Some sh" using dfn [OF m(4)] ..
  obtain v where v: "r ''TPR_Volume_SMA'' = Some v" using dfn [OF m(5)] ..
  obtain c where c: "r ''close'' = Some c" using dfn [OF mc] ..
  have nep: "\<not> df_empty p" using rs m(1) by (auto simp add: df_empty_def p_def)
  have g: "row_get p r ''PVG_SMA_Short'' d = Some short" "row_get p r ''PVG_SMA_Long'' d = Some long"
    "row_get p r ''SMC_Swing_Low'' d = Some sl" "row_get p r ''SMC_Swing_High'' d = Some sh"
    "row_get p r ''TPR_Volume_SMA'' d = Some v" "row_get p r ''close'' d = Some c" for d
    by (simp_all add: row_get_def m mc short long sl sh v c)
  have unfold: "generate_signal st lib data =
      (if cell_gt (row_get p r ''PVG_SMA_Short'' (-1)) (row_get p r ''PVG_SMA_Long'' (-1))
          \<and> cell_eq (row_get p r ''SMC_Swing_Low'' 0) (Some 1)
          \<and> (cell_gt (row_get p r ''close'' 0) (row_get p r ''PVG_SMA_Long'' 0)
             \<and> cell_gt (row_get p r ''TPR_Volume_SMA'' 0) (Some 0)) then BUY
       else if cell_lt (row_get p r ''PVG_SMA_Short'' 1) (row_get p r ''PVG_SMA_Long'' 1)
          \<and> cell_eq (row_get p r ''SMC_Swing_High'' 0) (Some 1)
          \<and> (cell_lt (row_get p r ''close'' 0) (row_get p r ''PVG_SMA_Long'' 0)
             \<and> cell_gt (row_get p r ''TPR_Volume_SMA'' 0) (Some 0)) then SELL
       else HOLD)"
    unfolding generate_signal_def Let_def p_def [symmetric] r_def [symmetric]
    using ne nep by simp
  have "generate_signal st lib data = spec_signal short long (sl = 1) (sh = 1) c v"
    unfolding unfold g spec_signal_def by simp
  then show ?thesis using short long sl sh v c unfolding r_def p_def by blast
qed

subsection \<open>A frame that lacks a column\<close>

lemma columns_analyzed_general:
  "set (columns (analyzed_data st lib data)) =
     set (columns data)
     \<union> (if ''close'' \<in> set (columns data) then {''PVG_SMA_Short'', ''PVG_SMA_Long''} else {})
     \<union> (if ''high'' \<in> set (columns data) \<and> ''low'' \<in> set (columns data)
        then {''SMC_Swing_High'', ''SMC_Swing_Low''} else {})
     \<union> {''TPR_Volume_SMA''}"
  by (auto simp add: analyzed_data_def analyze_tpr_def analyze_smc_def analyze_pvg_def Let_def
      columns_set_column)

lemma reindex_all_nan: "reindex n (replicate n nan) = replicate n None"
  by (rule nth_equalityI) (simp_all add: reindex_def nan_def)

lemma set_column_all_nan:
  assumes "r \<in> set (rows (set_column data name (replicate (length (rows data)) nan)))"
  shows "r name = None"
proof -
  have "get_column (set_column data name (replicate (length (rows data)) nan)) name =
          replicate (length (rows data)) None"
    unfolding get_column_set_column_same by (rule reindex_all_nan)
  then have "map (\<lambda>r. r name) (rows (set_column data name (replicate (length (rows data)) nan))) =
          replicate (length (rows data)) None"
    by (simp add: get_column_def)
  then have "r name \<in> set (replicate (length (rows data)) (None :: cell))"
    using assms by (metis image_eqI set_map)
  then show ?thesis by simp
qed

lemma no_volume_no_rows:
  assumes "''volume'' \<notin> set (columns data)"
  shows "rows (processed_data st lib data) = []"
proof -
  let ?d = "analyze_smc st lib (analyze_pvg st lib data)"
  have v: "''volume'' \<notin> set (columns ?d)"
    using assms by (auto simp add: analyze_smc_def analyze_pvg_def Let_def columns_set_column)
  then have a: "analyzed_data st lib data =
      set_column ?d ''TPR_Volume_SMA'' (replicate (length (rows ?d)) nan)"
    by (simp add: analyzed_data_def analyze_tpr_def)
  have c: "''TPR_Volume_SMA'' \<in> set (columns (analyzed_data st lib data))"
    by (simp add: columns_analyzed_general)
  have "\<not> list_all (\<lambda>name. \<not> isnan (r name)) (columns (analyzed_data st lib data))"
    if "r \<in> set (rows (analyzed_data st lib data))" for r
  proof -
    have "r ''TPR_Volume_SMA'' = None" using that unfolding a by (rule set_column_all_nan)
    with c show ?thesis by (auto simp add: list_all_iff isnan_def)
  qed
  then show ?thesis
    by (simp add: processed_data_def rows_dropna filter_empty_conv)
qed

lemma generate_signal_missing_column:
  assumes miss: "\<not> {''close'', ''high'', ''low'', ''volume''} \<subseteq> set (columns data)"
    and fresh: "set (columns data) \<inter> {''PVG_SMA_Short'', ''PVG_SMA_Long'', ''SMC_Swing_High'',
        ''SMC_Swing_Low'', ''TPR_Volume_SMA''} = {}"
  shows "generate_signal st lib data = HOLD"
proof (cases "df_empty data \<or> rows (processed_data st lib data) = []")
  case True
  then show ?thesis by (rule generate_signal_hold)
next
  case False
  define p where "p = processed_data st lib data"
  define r where "r = last (rows p)"
  have vol: "''volume'' \<in> set (columns data)"
    using False no_volume_no_rows by blast
  have pc: "set (columns p) = set (columns (analyzed_data st lib data))"
    by (simp add: p_def processed_data_def columns_dropna)
  have "''TPR_Volume_SMA'' \<in> set (columns p)" by (simp add: pc columns_analyzed_general)
  then have "columns p \<noteq> []" by auto
  then have nep: "\<not> df_empty p" using False by (simp add: df_empty_def p_def)
  have unfold: "generate_signal st lib data =
      (if cell_gt (row_get p r ''PVG_SMA_Short'' (-1)) (row_get p r ''PVG_SMA_Long'' (-1))
          \<and> cell_eq (row_get p r ''SMC_Swing_Low'' 0) (Some 1)
          \<and> (cell_gt (row_get p r ''close'' 0) (row_get p r ''PVG_SMA_Long'' 0)
             \<and> cell_gt (row_get p r ''TPR_Volume_SMA'' 0) (Some 0)) then BUY
       else if cell_lt (row_get p r ''PVG_SMA_Short'' 1) (row_get p r ''PVG_SMA_Long'' 1)
          \<and> cell_eq (row_get p r ''SMC_Swing_High'' 0) (Some 1)
          \<and> (cell_lt (row_get p r ''close'' 0) (row_get p r ''PVG_SMA_Long'' 0)
             \<and> cell_gt (row_get p r ''TPR_Volume_SMA'' 0) (Some 0)) then SELL
       else HOLD)"
    unfolding generate_signal_def Let_def p_def [symmetric] r_def [symmetric]
    using False nep by simp
  have f: "''PVG_SMA_Short'' \<notin> set (columns data)" "''PVG_SMA_Long'' \<notin> set (columns data)"
    "''SMC_Swing_High'' \<notin> set (columns data)" "''SMC_Swing_Low'' \<notin> set (columns data)"
    using fresh by auto
  show ?thesis
  proof (cases "''close'' \<in> set (columns data)")
    case False
    then have "''PVG_SMA_Short'' \<notin> set (columns p)" "''PVG_SMA_Long'' \<notin> set (columns p)"
      using f by (simp_all add: pc columns_analyzed_general)
    then have "row_get p r ''PVG_SMA_Short'' d = Some d" "row_get p r ''PVG_SMA_Long'' d = Some d" for d
      by (simp_all add: row_get_def)
    then show ?thesis unfolding unfold by simp
  next
    case True
    with miss vol have "\<not> (''high'' \<in> set (columns data) \<and> ''low'' \<in> set (columns data))"
      by auto
    then have "''SMC_Swing_High'' \<notin> set (columns p)" "''SMC_Swing_Low'' \<notin> set (columns p)"
      using f by (simp_all add: pc columns_analyzed_general)
    then have "row_get p r ''SMC_Swing_High'' d = Some d" "row_get p r ''SMC_Swing_Low'' d = Some d" for d
      by (simp_all add: row_get_def)
    then show ?thesis unfolding unfold by simp
  qed
qed

subsection \<open>The rising bars, evaluated\<close>

text \<open>
  \<^verbatim>\<open>dropna\<close> retains the bars 49 and 50; the claim's wording retains the bar 51 as
  well, whose indicator values are all defined and whose opening price is not.
\<close>

lemma rising_bars_cols: "{''close'', ''high'', ''low'', ''volume''} \<subseteq> set (columns rising_bars)"
  by (simp add: rising_bars_def)

lemma rising_bars_nonempty: "\<not> df_empty rising_bars"
  by (simp add: rising_bars_def df_empty_def)

lemma rising_bars_processed:
  "map (\<lambda>r. map r [''PVG_SMA_Short'', ''PVG_SMA_Long'', ''SMC_Swing_Low'', ''SMC_Swing_High'',
                     ''close'', ''TPR_Volume_SMA'', ''open''])
     (rows (processed_data CombinedStrategy_init (example_library (Inr 3) (Inr 25)) rising_bars)) =
   [[Some (287 / 2), Some (251 / 2), Some 0, Some 1, Some 150, Some 1000, Some 149],
    [Some (289 / 2), Some (253 / 2), Some 1, Some 1, Some 151, Some 1000, Some 150]]"
  by code_simp

lemma rising_bars_claimed:
  "map (\<lambda>r. map r [''PVG_SMA_Short'', ''PVG_SMA_Long'', ''SMC_Swing_Low'', ''SMC_Swing_High'',
                     ''close'', ''TPR_Volume_SMA'', ''open''])
     (claimed_rows CombinedStrategy_init (example_library (Inr 3) (Inr 25)) rising_bars) =
   [[Some (287 / 2), Some (251 / 2), Some 0, Some 1, Some 150, Some 1000, Some 149],
    [Some (289 / 2), Some (253 / 2), Some 1, Some 1, Some 151, Some 1000, Some 150],
    [Some (291 / 2), Some (255 / 2), Some 0, Some 1, Some 152, Some 1000, None]]"
  by code_simp

lemma last_cells:
  assumes "map (\<lambda>r. map r names) rs = vs" and "vs \<noteq> []"
  shows "rs \<noteq> [] \<and> map (last rs) names = last vs"
proof -
  have ne: "rs \<noteq> []" using assms by auto
  have "map (last rs) names = last (map (\<lambda>r. map r names) rs)"
    using last_map [OF ne, of "\<lambda>r. map r names"] by simp
  then show ?thesis using ne assms(1) by simp
qed

lemma rising_bars_latest:
  "rows (processed_data CombinedStrategy_init (example_library (Inr 3) (Inr 25)) rising_bars) \<noteq> []
   \<and> map (last (rows (processed_data CombinedStrategy_init (example_library (Inr 3) (Inr 25)) rising_bars)))
       [''PVG_SMA_Short'', ''PVG_SMA_Long'', ''SMC_Swing_Low'', ''SMC_Swing_High'',
        ''close'', ''TPR_Volume_SMA'', ''open''] =
      [Some (289 / 2), Some (253 / 2), Some 1, Some 1, Some 151, Some 1000, Some 150]"
  using last_cells [OF rising_bars_processed] by simp

lemma rising_bars_claimed_latest:
  "claimed_rows CombinedStrategy_init (example_library (Inr 3) (Inr 25)) rising_bars \<noteq> []
   \<and> map (last (claimed_rows CombinedStrategy_init (example_library (Inr 3) (Inr 25)) rising_bars))
       [''PVG_SMA_Short'', ''PVG_SMA_Long'', ''SMC_Swing_Low'', ''SMC_Swing_High'',
        ''close'', ''TPR_Volume_SMA'', ''open''] =
      [Some (291 / 2), Some (255 / 2), Some 0, Some 1, Some 152, Some 1000, None]"
  using last_cells [OF rising_bars_claimed] by simp

lemma same_cell: "x = Some a \<Longrightarrow> x = Some b \<Longrightarrow> a = b"
  by simp

lemma rising_bars_buy:
  "generate_signal CombinedStrategy_init (example_library (Inr 3) (Inr 25)) rising_bars = BUY"
proof -
  let ?lib = "example_library (Inr 3) (Inr 25)"
  let ?r = "last (rows (processed_data CombinedStrategy_init ?lib rising_bars))"
  have ne: "rows (processed_data CombinedStrategy_init ?lib rising_bars) \<noteq> []"
    using rising_bars_latest by (rule conjunct1)
  have vals: "?r ''PVG_SMA_Short'' = Some (289 / 2)" "?r ''PVG_SMA_Long'' = Some (253 / 2)"
    "?r ''SMC_Swing_Low'' = Some 1" "?r ''SMC_Swing_High'' = Some 1" "?r ''close'' = Some 151"
    "?r ''TPR_Volume_SMA'' = Some 1000"
    using rising_bars_latest by simp_all
  from generate_signal_latest [OF rising_bars_cols rising_bars_nonempty ne]
  show ?thesis
  proof (elim exE conjE)
    fix short long sl sh c v
    assume s: "?r ''PVG_SMA_Short'' = Some short" "?r ''PVG_SMA_Long'' = Some long"
      "?r ''SMC_Swing_Low'' = Some sl" "?r ''SMC_Swing_High'' = Some sh" "?r ''close'' = Some c"
      "?r ''TPR_Volume_SMA'' = Some v"
      and g: "generate_signal CombinedStrategy_init ?lib rising_bars =
              spec_signal short long (sl = 1) (sh = 1) c v"
    have eqs: "short = 289 / 2" "long = 253 / 2" "sl = 1" "sh = 1" "c = 151" "v = 1000"
      by (rule same_cell [OF s(1) vals(1)], rule same_cell [OF s(2) vals(2)],
          rule same_cell [OF s(3) vals(3)], rule same_cell [OF s(4) vals(4)],
          rule same_cell [OF s(5) vals(5)], rule same_cell [OF s(6) vals(6)])
    show ?thesis using g unfolding eqs by (simp add: spec_signal_def)
  qed
qed

lemma rising_bars_claimed_hold:
  "claimed_signal CombinedStrategy_init (example_library (Inr 3) (Inr 25)) rising_bars = HOLD"
proof -
  let ?lib = "example_library (Inr 3) (Inr 25)"
  let ?r = "last (claimed_rows CombinedStrategy_init ?lib rising_bars)"
  have ne: "claimed_rows CombinedStrategy_init ?lib rising_bars \<noteq> []"
    using rising_bars_claimed_latest by (rule conjunct1)
  have vals: "?r ''PVG_SMA_Short'' = Some (291 / 2)" "?r ''PVG_SMA_Long'' = Some (255 / 2)"
    "?r ''SMC_Swing_Low'' = Some 0" "?r ''SMC_Swing_High'' = Some 1" "?r ''close'' = Some 152"
    "?r ''TPR_Volume_SMA'' = Some 1000"
    using rising_bars_claimed_latest by simp_all
  show ?thesis
    unfolding claimed_signal_def Let_def vals using rising_bars_nonempty ne by simp
qed


subsection \<open>The decision rule\<close>

text \<open>
  Claim C9, as stated, takes the decision on the most recent bar that remains after the
  rows with an undefined indicator value are discarded. \<^verbatim>\<open>dropna\<close> discards a row
  with an undefined cell in any column. On the rising bars the last bar has every
  indicator value defined and no opening price: the claim's rule reads that bar and
  gives HOLD (it is no swing low), while \<^verbatim>\<open>generate_signal\<close> reads the bar before
  it and returns BUY.
\<close>

theorem generate_signal_raw_gap_counterexample:
  "generate_signal CombinedStrategy_init (example_library (Inr 3) (Inr 25)) rising_bars = BUY
   \<and> claimed_signal CombinedStrategy_init (example_library (Inr 3) (Inr 25)) rising_bars = HOLD
   \<and> map (last (claimed_rows CombinedStrategy_init (example_library (Inr 3) (Inr 25)) rising_bars))
       [''PVG_SMA_Short'', ''PVG_SMA_Long'', ''SMC_Swing_Low'', ''SMC_Swing_High'',
        ''close'', ''TPR_Volume_SMA'', ''open''] =
      [Some (291 / 2), Some (255 / 2), Some 0, Some 1, Some 152, Some 1000, None]"
  using rising_bars_buy rising_bars_claimed_hold rising_bars_claimed_latest by (intro conjI) simp_all

text \<open>
  Claim C9, amended. \<^verbatim>\<open>generate_signal\<close> returns HOLD whenever the input is empty
  or no row remains after \<^verbatim>\<open>dropna\<close>, which keeps exactly the rows of the analysed
  frame with no undefined cell in any column, raw field or indicator. For a frame with
  the columns \<^verbatim>\<open>close\<close>, \<^verbatim>\<open>high\<close>, \<^verbatim>\<open>low\<close> and \<^verbatim>\<open>volume\<close>, the six values of
  the most recent remaining bar are defined and the signal is BUY iff short SMA > long
  SMA and the bar is a swing low and close > long SMA and volume SMA > 0, else SELL iff
  short SMA < long SMA and the bar is a swing high and close < long SMA and volume SMA
  > 0, else HOLD. On every bar of the analysed frame the short and long SMA are the
  library's SMA(14) and SMA(50) of the close, the volume SMA is its SMA(20) of the
  volume, the swing-low flag is 1 when the rolling 20-period minimum of the low is a
  number equal to the bar's low and 0 otherwise, the swing-high flag likewise with the
  maximum of the high, and every other cell is the input's. A frame that lacks one of
  the four columns, and has no column named like an indicator, gives HOLD.
\<close>

theorem generate_signal_decision_rule:
  "((columns data = [] \<or> rows data = []) \<or> rows (processed_data CombinedStrategy_init lib data) = [] \<longrightarrow>
      generate_signal CombinedStrategy_init lib data = HOLD)
   \<and> ({''close'', ''high'', ''low'', ''volume''} \<subseteq> set (columns data)
        \<and> \<not> (columns data = [] \<or> rows data = [])
        \<and> rows (processed_data CombinedStrategy_init lib data) \<noteq> [] \<longrightarrow>
        (\<exists>short long sl sh c v.
           last (rows (processed_data CombinedStrategy_init lib data)) ''PVG_SMA_Short'' = Some short
         \<and> last (rows (processed_data CombinedStrategy_init lib data)) ''PVG_SMA_Long'' = Some long
         \<and> last (rows (processed_data CombinedStrategy_init lib data)) ''SMC_Swing_Low'' = Some sl
         \<and> last (rows (processed_data CombinedStrategy_init lib data)) ''SMC_Swing_High'' = Some sh
         \<and> last (rows (processed_data CombinedStrategy_init lib data)) ''close'' = Some c
         \<and> last (rows (processed_data CombinedStrategy_init lib data)) ''TPR_Volume_SMA'' = Some v
         \<and> generate_signal CombinedStrategy_init lib data =
             spec_signal short long (sl = 1) (sh = 1) c v))
   \<and> rows (processed_data CombinedStrategy_init lib data) =
       filter (\<lambda>r. \<forall>name \<in> set (columns (analyzed_data CombinedStrategy_init lib data)). r name \<noteq> None)
         (rows (analyzed_data CombinedStrategy_init lib data))
   \<and> ({''close'', ''high'', ''low'', ''volume''} \<subseteq> set (columns data) \<longrightarrow>
        set (columns (analyzed_data CombinedStrategy_init lib data)) =
          {''PVG_SMA_Short'', ''PVG_SMA_Long'', ''SMC_Swing_High'', ''SMC_Swing_Low'',
           ''TPR_Volume_SMA''} \<union> set (columns data)
        \<and> length (rows (analyzed_data CombinedStrategy_init lib data)) = length (rows data))
   \<and> ({''close'', ''high'', ''low'', ''volume''} \<subseteq> set (columns data) \<and> i < length (rows data) \<longrightarrow>
        (rows (analyzed_data CombinedStrategy_init lib data) ! i) ''PVG_SMA_Short'' =
           (if i < length (sma_indicator lib (map (\<lambda>r. r ''close'') (rows data)) 14)
            then sma_indicator lib (map (\<lambda>r. r ''close'') (rows data)) 14 ! i else None)
        \<and> (rows (analyzed_data CombinedStrategy_init lib data) ! i) ''PVG_SMA_Long'' =
           (if i < length (sma_indicator lib (map (\<lambda>r. r ''close'') (rows data)) 50)
            then sma_indicator lib (map (\<lambda>r. r ''close'') (rows data)) 50 ! i else None)
        \<and> (rows (analyzed_data CombinedStrategy_init lib data) ! i) ''TPR_Volume_SMA'' =
           (if i < length (sma_indicator lib (map (\<lambda>r. r ''volume'') (rows data)) 20)
            then sma_indicator lib (map (\<lambda>r. r ''volume'') (rows data)) 20 ! i else None)
        \<and> (rows (analyzed_data CombinedStrategy_init lib data) ! i) ''SMC_Swing_Low'' =
           (if i < length (rolling_min lib (map (\<lambda>r. r ''low'') (rows data)) 20)
            then Some (if rolling_min lib (map (\<lambda>r. r ''low'') (rows data)) 20 ! i \<noteq> None
                        \<and> rolling_min lib (map (\<lambda>r. r ''low'') (rows data)) 20 ! i
                            = (rows data ! i) ''low''
                       then 1 else 0)
            else None)
        \<and> (rows (analyzed_data CombinedStrategy_init lib data) ! i) ''SMC_Swing_High'' =
           (if i < length (rolling_max lib (map (\<lambda>r. r ''high'') (rows data)) 20)
            then Some (if rolling_max lib (map (\<lambda>r. r ''high'') (rows data)) 20 ! i \<noteq> None
                        \<and> rolling_max lib (map (\<lambda>r. r ''high'') (rows data)) 20 ! i
                            = (rows data ! i) ''high''
                       then 1 else 0)
            else None)
        \<and> (name \<notin> {''PVG_SMA_Short'', ''PVG_SMA_Long'', ''SMC_Swing_High'', ''SMC_Swing_Low'',
              ''TPR_Volume_SMA''} \<longrightarrow>
            (rows (analyzed_data CombinedStrategy_init lib data) ! i) name = (rows data ! i) name))
   \<and> (\<not> {''close'', ''high'', ''low'', ''volume''} \<subseteq> set (columns data)
        \<and> set (columns data) \<inter> {''PVG_SMA_Short'', ''PVG_SMA_Long'', ''SMC_Swing_High'',
              ''SMC_Swing_Low'', ''TPR_Volume_SMA''} = {} \<longrightarrow>
        generate_signal CombinedStrategy_init lib data = HOLD)"
proof -
  let ?st = CombinedStrategy_init
  have hold: "(columns data = [] \<or> rows data = []) \<or> rows (processed_data ?st lib data) = [] \<longrightarrow>
      generate_signal ?st lib data = HOLD"
    unfolding df_empty_def [symmetric] by (intro impI) (rule generate_signal_hold)
  have rule: "{''close'', ''high'', ''low'', ''volume''} \<subseteq> set (columns data)
        \<and> \<not> (columns data = [] \<or> rows data = [])
        \<and> rows (processed_data ?st lib data) \<noteq> [] \<longrightarrow>
        (\<exists>short long sl sh c v.
           last (rows (processed_data ?st lib data)) ''PVG_SMA_Short'' = Some short
         \<and> last (rows (processed_data ?st lib data)) ''PVG_SMA_Long'' = Some long
         \<and> last (rows (processed_data ?st lib data)) ''SMC_Swing_Low'' = Some sl
         \<and> last (rows (processed_data ?st lib data)) ''SMC_Swing_High'' = Some sh
         \<and> last (rows (processed_data ?st lib data)) ''close'' = Some c
         \<and> last (rows (processed_data ?st lib data)) ''TPR_Volume_SMA'' = Some v
         \<and> generate_signal ?st lib data = spec_signal short long (sl = 1) (sh = 1) c v)"
  proof (intro impI, elim conjE)
    assume "{''close'', ''high'', ''low'', ''volume''} \<subseteq> set (columns data)"
      and "\<not> (columns data = [] \<or> rows data = [])"
      and "rows (processed_data ?st lib data) \<noteq> []"
    then show "\<exists>short long sl sh c v.
           last (rows (processed_data ?st lib data)) ''PVG_SMA_Short'' = Some short
         \<and> last (rows (processed_data ?st lib data)) ''PVG_SMA_Long'' = Some long
         \<and> last (rows (processed_data ?st lib data)) ''SMC_Swing_Low'' = Some sl
         \<and> last (rows (processed_data ?st lib data)) ''SMC_Swing_High'' = Some sh
         \<and> last (rows (processed_data ?st lib data)) ''close'' = Some c
         \<and> last (rows (processed_data ?st lib data)) ''TPR_Volume_SMA'' = Some v
         \<and> generate_signal ?st lib data = spec_signal short long (sl = 1) (sh = 1) c v"
      unfolding df_empty_def [symmetric] by (rule generate_signal_latest)
  qed
  have kept: "rows (processed_data ?st lib data) =
       filter (\<lambda>r. \<forall>name \<in> set (columns (analyzed_data ?st lib data)). r name \<noteq> None)
         (rows (analyzed_data ?st lib data))"
    by (simp add: processed_data_def rows_dropna list_all_iff isnan_def)
  have shape: "{''close'', ''high'', ''low'', ''volume''} \<subseteq> set (columns data) \<longrightarrow>
        set (columns (analyzed_data ?st lib data)) =
          {''PVG_SMA_Short'', ''PVG_SMA_Long'', ''SMC_Swing_High'', ''SMC_Swing_Low'',
           ''TPR_Volume_SMA''} \<union> set (columns data)
        \<and> length (rows (analyzed_data ?st lib data)) = length (rows data)"
  proof (intro impI conjI)
    assume "{''close'', ''high'', ''low'', ''volume''} \<subseteq> set (columns data)"
    then show "set (columns (analyzed_data ?st lib data)) =
          {''PVG_SMA_Short'', ''PVG_SMA_Long'', ''SMC_Swing_High'', ''SMC_Swing_Low'',
           ''TPR_Volume_SMA''} \<union> set (columns data)"
      by (rule columns_analyzed)
    show "length (rows (analyzed_data ?st lib data)) = length (rows data)"
      by (rule length_rows_analyzed)
  qed
  have p: "pvg_short_period ?st = 14" "pvg_long_period ?st = 50" "smc_lookback ?st = 20"
    "tpr_volume_period ?st = 20"
    by (simp_all add: CombinedStrategy_init_def)
  have cells: "{''close'', ''high'', ''low'', ''volume''} \<subseteq> set (columns data) \<and> i < length (rows data) \<longrightarrow>
        (rows (analyzed_data ?st lib data) ! i) ''PVG_SMA_Short'' =
           (if i < length (sma_indicator lib (map (\<lambda>r. r ''close'') (rows data)) 14)
            then sma_indicator lib (map (\<lambda>r. r ''close'') (rows data)) 14 ! i else None)
        \<and> (rows (analyzed_data ?st lib data) ! i) ''PVG_SMA_Long'' =
           (if i < length (sma_indicator lib (map (\<lambda>r. r ''close'') (rows data)) 50)
            then sma_indicator lib (map (\<lambda>r. r ''close'') (rows data)) 50 ! i else None)
        \<and> (rows (analyzed_data ?st lib data) ! i) ''TPR_Volume_SMA'' =
           (if i < length (sma_indicator lib (map (\<lambda>r. r ''volume'') (rows data)) 20)
            then sma_indicator lib (map (\<lambda>r. r ''volume'') (rows data)) 20 ! i else None)
        \<and> (rows (analyzed_data ?st lib data) ! i) ''SMC_Swing_Low'' =
           (if i < length (rolling_min lib (map (\<lambda>r. r ''low'') (rows data)) 20)
            then Some (if rolling_min lib (map (\<lambda>r. r ''low'') (rows data)) 20 ! i \<noteq> None
                        \<and> rolling_min lib (map (\<lambda>r. r ''low'') (rows data)) 20 ! i
                            = (rows data ! i) ''low''
                       then 1 else 0)
            else None)
        \<and> (rows (analyzed_data ?st lib data) ! i) ''SMC_Swing_High'' =
           (if i < length (rolling_max lib (map (\<lambda>r. r ''high'') (rows data)) 20)
            then Some (if rolling_max lib (map (\<lambda>r. r ''high'') (rows data)) 20 ! i \<noteq> None
                        \<and> rolling_max lib (map (\<lambda>r. r ''high'') (rows data)) 20 ! i
                            = (rows data ! i) ''high''
                       then 1 else 0)
            else None)
        \<and> (name \<notin> {''PVG_SMA_Short'', ''PVG_SMA_Long'', ''SMC_Swing_High'', ''SMC_Swing_Low'',
              ''TPR_Volume_SMA''} \<longrightarrow>
            (rows (analyzed_data ?st lib data) ! i) name = (rows data ! i) name)"
  proof (intro impI, elim conjE)
    assume cols: "{''close'', ''high'', ''low'', ''volume''} \<subseteq> set (columns data)"
      and i: "i < length (rows data)"
    note ar = analyzed_row [OF cols i, of ?st lib, unfolded p]
    have other: "name \<notin> {''PVG_SMA_Short'', ''PVG_SMA_Long'', ''SMC_Swing_High'', ''SMC_Swing_Low'',
              ''TPR_Volume_SMA''} \<longrightarrow>
            (rows (analyzed_data ?st lib data) ! i) name = (rows data ! i) name"
      by (intro impI) (rule analyzed_row_other [OF cols i])
    show "(rows (analyzed_data ?st lib data) ! i) ''PVG_SMA_Short'' =
           (if i < length (sma_indicator lib (map (\<lambda>r. r ''close'') (rows data)) 14)
            then sma_indicator lib (map (\<lambda>r. r ''close'') (rows data)) 14 ! i else None)
        \<and> (rows (analyzed_data ?st lib data) ! i) ''PVG_SMA_Long'' =
           (if i < length (sma_indicator lib (map (\<lambda>r. r ''close'') (rows data)) 50)
            then sma_indicator lib (map (\<lambda>r. r ''close'') (rows data)) 50 ! i else None)
        \<and> (rows (analyzed_data ?st lib data) ! i) ''TPR_Volume_SMA'' =
           (if i < length (sma_indicator lib (map (\<lambda>r. r ''volume'') (rows data)) 20)
            then sma_indicator lib (map (\<lambda>r. r ''volume'') (rows data)) 20 ! i else None)
        \<and> (rows (analyzed_data ?st lib data) ! i) ''SMC_Swing_Low'' =
           (if i < length (rolling_min lib (map (\<lambda>r. r ''low'') (rows data)) 20)
            then Some (if rolling_min lib (map (\<lambda>r. r ''low'') (rows data)) 20 ! i \<noteq> None
                        \<and> rolling_min lib (map (\<lambda>r. r ''low'') (rows data)) 20 ! i
                            = (rows data ! i) ''low''
                       then 1 else 0)
            else None)
        \<and> (rows (analyzed_data ?st lib data) ! i) ''SMC_Swing_High'' =
           (if i < length (rolling_max lib (map (\<lambda>r. r ''high'') (rows data)) 20)
            then Some (if rolling_max lib (map (\<lambda>r. r ''high'') (rows data)) 20 ! i \<noteq> None
                        \<and> rolling_max lib (map (\<lambda>r. r ''high'') (rows data)) 20 ! i
                            = (rows data ! i) ''high''
                       then 1 else 0)
            else None)
        \<and> (name \<notin> {''PVG_SMA_Short'', ''PVG_SMA_Long'', ''SMC_Swing_High'', ''SMC_Swing_Low'',
              ''TPR_Volume_SMA''} \<longrightarrow>
            (rows (analyzed_data ?st lib data) ! i) name = (rows data ! i) name)"
      using ar other by (intro conjI)
  qed
  have missing: "\<not> {''close'', ''high'', ''low'', ''volume''} \<subseteq> set (columns data)
        \<and> set (columns data) \<inter> {''PVG_SMA_Short'', ''PVG_SMA_Long'', ''SMC_Swing_High'',
              ''SMC_Swing_Low'', ''TPR_Volume_SMA''} = {} \<longrightarrow>
        generate_signal ?st lib data = HOLD"
  proof (intro impI, elim conjE)
    assume "\<not> {''close'', ''high'', ''low'', ''volume''} \<subseteq> set (columns data)"
      and "set (columns data) \<inter> {''PVG_SMA_Short'', ''PVG_SMA_Long'', ''SMC_Swing_High'',
              ''SMC_Swing_Low'', ''TPR_Volume_SMA''} = {}"
    then show "generate_signal ?st lib data = HOLD"
      by (rule generate_signal_missing_column)
  qed
  show ?thesis
    using hold rule kept shape cells missing by (intro conjI)
qed


theorem generate_signal_decision_rule_witness:
  "{''close'', ''high'', ''low'', ''volume''} \<subseteq> set (columns rising_bars)
   \<and> rows (processed_data CombinedStrategy_init (example_library (Inr 3) (Inr 25)) rising_bars) \<noteq> []
   \<and> map (last (rows (processed_data CombinedStrategy_init (example_library (Inr 3) (Inr 25)) rising_bars)))
       [''PVG_SMA_Short'', ''PVG_SMA_Long'', ''SMC_Swing_Low'', ''SMC_Swing_High'',
        ''close'', ''TPR_Volume_SMA'', ''open''] =
      [Some (289 / 2), Some (253 / 2), Some 1, Some 1, Some 151, Some 1000, Some 150]
   \<and> generate_signal CombinedStrategy_init (example_library (Inr 3) (Inr 25)) rising_bars =
       spec_signal (289 / 2) (253 / 2) True True 151 1000
   \<and> generate_signal CombinedStrategy_init (example_library (Inr 3) (Inr 25)) rising_bars = BUY
   \<and> generate_signal CombinedStrategy_init (example_library (Inr 3) (Inr 25))
       \<lparr> columns = [], rows = [] \<rparr> = HOLD
   \<and> generate_signal CombinedStrategy_init (example_library (Inr 3) (Inr 25)) one_bar = HOLD"
proof -
  let ?lib = "example_library (Inr 3) (Inr 25)"
  let ?r = "last (rows (processed_data CombinedStrategy_init ?lib rising_bars))"
  have ne: "rows (processed_data CombinedStrategy_init ?lib rising_bars) \<noteq> []"
    using rising_bars_latest by (rule conjunct1)
  have vals: "?r ''PVG_SMA_Short'' = Some (289 / 2)" "?r ''PVG_SMA_Long'' = Some (253 / 2)"
    "?r ''SMC_Swing_Low'' = Some 1" "?r ''SMC_Swing_High'' = Some 1" "?r ''close'' = Some 151"
    "?r ''TPR_Volume_SMA'' = Some 1000"
    using rising_bars_latest by simp_all
  have imp: "{''close'', ''high'', ''low'', ''volume''} \<subseteq> set (columns rising_bars)
        \<and> \<not> (columns rising_bars = [] \<or> rows rising_bars = [])
        \<and> rows (processed_data CombinedStrategy_init ?lib rising_bars) \<noteq> [] \<longrightarrow>
        (\<exists>short long sl sh c v.
           ?r ''PVG_SMA_Short'' = Some short \<and> ?r ''PVG_SMA_Long'' = Some long
         \<and> ?r ''SMC_Swing_Low'' = Some sl \<and> ?r ''SMC_Swing_High'' = Some sh
         \<and> ?r ''close'' = Some c \<and> ?r ''TPR_Volume_SMA'' = Some v
         \<and> generate_signal CombinedStrategy_init ?lib rising_bars =
             spec_signal short long (sl = 1) (sh = 1) c v)"
    by (rule generate_signal_decision_rule [of rising_bars ?lib, THEN conjunct2, THEN conjunct1])
  have prem: "{''close'', ''high'', ''low'', ''volume''} \<subseteq> set (columns rising_bars)
        \<and> \<not> (columns rising_bars = [] \<or> rows rising_bars = [])
        \<and> rows (processed_data CombinedStrategy_init ?lib rising_bars) \<noteq> []"
    using rising_bars_cols rising_bars_nonempty [unfolded df_empty_def] ne by (intro conjI)
  from imp prem have ex: "\<exists>short long sl sh c v.
           ?r ''PVG_SMA_Short'' = Some short \<and> ?r ''PVG_SMA_Long'' = Some long
         \<and> ?r ''SMC_Swing_Low'' = Some sl \<and> ?r ''SMC_Swing_High'' = Some sh
         \<and> ?r ''close'' = Some c \<and> ?r ''TPR_Volume_SMA'' = Some v
         \<and> generate_signal CombinedStrategy_init ?lib rising_bars =
             spec_signal short long (sl = 1) (sh = 1) c v"
    by (rule mp)
  from ex have g': "generate_signal CombinedStrategy_init ?lib rising_bars =
              spec_signal (289 / 2) (253 / 2) True True 151 1000"
  proof (elim exE conjE)
    fix short long sl sh c v
    assume s: "?r ''PVG_SMA_Short'' = Some short" "?r ''PVG_SMA_Long'' = Some long"
      "?r ''SMC_Swing_Low'' = Some sl" "?r ''SMC_Swing_High'' = Some sh" "?r ''close'' = Some c"
      "?r ''TPR_Volume_SMA'' = Some v"
      and g: "generate_signal CombinedStrategy_init ?lib rising_bars =
              spec_signal short long (sl = 1) (sh = 1) c v"
    have eqs: "short = 289 / 2" "long = 253 / 2" "sl = 1" "sh = 1" "c = 151" "v = 1000"
      by (rule same_cell [OF s(1) vals(1)], rule same_cell [OF s(2) vals(2)],
          rule same_cell [OF s(3) vals(3)], rule same_cell [OF s(4) vals(4)],
          rule same_cell [OF s(5) vals(5)], rule same_cell [OF s(6) vals(6)])
    show ?thesis using g unfolding eqs by simp
  qed
  have buy: "spec_signal (289 / 2) (253 / 2) True True 151 1000 = BUY"
    by (simp add: spec_signal_def)
  have e: "(columns \<lparr> columns = [], rows = [] \<rparr> = [] \<or> rows \<lparr> columns = [], rows = [] \<rparr> = [])
      \<or> rows (processed_data CombinedStrategy_init ?lib \<lparr> columns = [], rows = [] \<rparr>) = []"
    by simp
  have hold: "generate_signal CombinedStrategy_init ?lib \<lparr> columns = [], rows = [] \<rparr> = HOLD"
    using generate_signal_decision_rule [of "\<lparr> columns = [], rows = [] \<rparr>" ?lib, THEN conjunct1] e by (rule mp)
  have m: "\<not> {''close'', ''high'', ''low'', ''volume''} \<subseteq> set (columns one_bar)
        \<and> set (columns one_bar) \<inter> {''PVG_SMA_Short'', ''PVG_SMA_Long'', ''SMC_Swing_High'',
              ''SMC_Swing_Low'', ''TPR_Volume_SMA''} = {}"
    by (simp add: one_bar_def)
  have hold1: "generate_signal CombinedStrategy_init ?lib one_bar = HOLD"
    using generate_signal_decision_rule [of one_bar ?lib, THEN conjunct2, THEN conjunct2, THEN conjunct2, THEN conjunct2,
        THEN conjunct2] m by (rule mp)
  show ?thesis using rising_bars_cols rising_bars_latest g' buy hold hold1 by simp
qed

end
